theory Spec2Isabelle
  imports Complex_Main "HOL-Library.Log_Nat" "HOL-Library.Multiset"
begin

section \<open>Python values\<close>

text \<open>
  The scripts handle the values that \<^verbatim>\<open>json.loads\<close>, \<^verbatim>\<open>yaml.safe_load\<close> and
  \<^verbatim>\<open>response.json()\<close> produce, and build dictionaries that \<^verbatim>\<open>json.dumps\<close> serialises.
  A dictionary is an association list in insertion order whose keys are strings (a Python
  dictionary holds each key once); Python's \<^verbatim>\<open>None\<close> is \<open>JNull\<close>. A float is kept as the
  rational number it denotes. Strings are byte strings.
\<close>

datatype json =
    JNull
  | JBool bool
  | JInt int
  | JFloat rat
  | JStr string
  | JList "json list"
  | JDict "(string \<times> json) list"

text \<open>
  The exceptions the scripts meet. \<open>CalledProcessError\<close> carries the captured standard
  error; \<open>RequestError\<close> stands for the exceptions of \<^verbatim>\<open>requests\<close>, which have an attribute
  \<^verbatim>\<open>response\<close> that is \<^verbatim>\<open>None\<close> or a response with a text; \<open>KeyboardInterrupt\<close> is the only
  one that \<^verbatim>\<open>except Exception\<close> does not catch.
\<close>

datatype exn =
    AttributeError
  | KeyError
  | TypeError
  | IndexError
  | ValueError
  | UnboundLocalError
  | CalledProcessError string
  | RequestError "string option"
  | OtherError string
  | KeyboardInterrupt

text \<open>What an external call (a subprocess, an HTTP request) does.\<close>

datatype 'a call =
    Completed 'a
  | Raises exn

text \<open>What a function of the scripts does: return a value, leave the process through
  \<^verbatim>\<open>sys.exit\<close>, or let an exception escape.\<close>

datatype 'a outcome =
    Returned 'a
  | Sys_exit int
  | Uncaught exn

text \<open>A line printed on standard output: a text, or a text followed by the formatted
  exception or value.\<close>

datatype line =
    Text string
  | Text_exn string exn
  | Text_value string json

definition bind_exn :: "exn + 'a \<Rightarrow> ('a \<Rightarrow> exn + 'b) \<Rightarrow> exn + 'b" where
  "bind_exn m f = (case m of Inl e \<Rightarrow> Inl e | Inr v \<Rightarrow> f v)"

fun truthy :: "json \<Rightarrow> bool" where
  "truthy JNull = False"
| "truthy (JBool b) = b"
| "truthy (JInt i) = (i \<noteq> 0)"
| "truthy (JFloat r) = (r \<noteq> 0)"
| "truthy (JStr s) = (s \<noteq> [])"
| "truthy (JList xs) = (xs \<noteq> [])"
| "truthy (JDict d) = (d \<noteq> [])"

text \<open>Python's \<^verbatim>\<open>==\<close>: numbers and booleans compare by value, dictionaries regardless of
  the order of their keys.\<close>

fun num_of :: "json \<Rightarrow> rat option" where
  "num_of (JBool b) = Some (if b then 1 else 0)"
| "num_of (JInt i) = Some (of_int i)"
| "num_of (JFloat r) = Some r"
| "num_of _ = None"

fun py_eq :: "json \<Rightarrow> json \<Rightarrow> bool"
  and py_eq_list :: "json list \<Rightarrow> json list \<Rightarrow> bool"
  and py_sub_dict :: "(string \<times> json) list \<Rightarrow> (string \<times> json) list \<Rightarrow> bool" where
  "py_eq JNull b = (b = JNull)"
| "py_eq (JStr s) b = (b = JStr s)"
| "py_eq (JList xs) b = (case b of JList ys \<Rightarrow> py_eq_list xs ys | _ \<Rightarrow> False)"
| "py_eq (JDict d) b =
     (case b of JDict e \<Rightarrow> length d = length e \<and> py_sub_dict d e | _ \<Rightarrow> False)"
| "py_eq (JBool x) b = (num_of b = num_of (JBool x))"
| "py_eq (JInt x) b = (num_of b = num_of (JInt x))"
| "py_eq (JFloat x) b = (num_of b = num_of (JFloat x))"
| "py_eq_list [] ys = (ys = [])"
| "py_eq_list (x # xs) ys =
     (case ys of [] \<Rightarrow> False | y # ys' \<Rightarrow> py_eq x y \<and> py_eq_list xs ys')"
| "py_sub_dict [] e = True"
| "py_sub_dict ((k, v) # d) e =
     ((case map_of e k of None \<Rightarrow> False | Some w \<Rightarrow> py_eq v w) \<and> py_sub_dict d e)"

text \<open>\<^verbatim>\<open>obj[key]\<close> with a string key: only a dictionary can be subscripted by a string.\<close>

definition py_getitem :: "json \<Rightarrow> string \<Rightarrow> exn + json" where
  "py_getitem obj k =
     (case obj of
        JDict d \<Rightarrow> (case map_of d k of Some v \<Rightarrow> Inr v | None \<Rightarrow> Inl KeyError)
      | _ \<Rightarrow> Inl TypeError)"

text \<open>\<^verbatim>\<open>obj.get(key, default)\<close>: only a dictionary has the method.\<close>

definition py_get :: "json \<Rightarrow> string \<Rightarrow> json \<Rightarrow> exn + json" where
  "py_get obj k dflt =
     (case obj of
        JDict d \<Rightarrow> Inr (case map_of d k of Some v \<Rightarrow> v | None \<Rightarrow> dflt)
      | _ \<Rightarrow> Inl AttributeError)"

fun starts_with :: "string \<Rightarrow> string \<Rightarrow> bool" where
  "starts_with s [] = True"
| "starts_with [] (p # ps) = False"
| "starts_with (c # cs) (p # ps) = (c = p \<and> starts_with cs ps)"

text \<open>\<^verbatim>\<open>needle in haystack\<close> on strings.\<close>

fun is_substring :: "string \<Rightarrow> string \<Rightarrow> bool" where
  "is_substring needle [] = (needle = [])"
| "is_substring needle (c # cs) = (starts_with (c # cs) needle \<or> is_substring needle cs)"

text \<open>\<^verbatim>\<open>key in obj\<close> with a string key.\<close>

definition py_contains :: "string \<Rightarrow> json \<Rightarrow> exn + bool" where
  "py_contains k obj =
     (case obj of
        JDict d \<Rightarrow> Inr (k \<in> set (map fst d))
      | JList xs \<Rightarrow> Inr (JStr k \<in> set xs)
      | JStr s \<Rightarrow> Inr (is_substring k s)
      | _ \<Rightarrow> Inl TypeError)"

text \<open>\<^verbatim>\<open>for x in obj\<close>: a list gives its elements, a dictionary its keys, a string its
  characters; nothing else can be iterated.\<close>

definition py_iter :: "json \<Rightarrow> exn + json list" where
  "py_iter obj =
     (case obj of
        JList xs \<Rightarrow> Inr xs
      | JDict d \<Rightarrow> Inr (map (\<lambda>kv. JStr (fst kv)) d)
      | JStr s \<Rightarrow> Inr (map (\<lambda>c. JStr [c]) s)
      | _ \<Rightarrow> Inl TypeError)"

text \<open>\<^verbatim>\<open>obj[0]\<close>.\<close>

definition py_first :: "json \<Rightarrow> exn + json" where
  "py_first obj =
     (case obj of
        JList xs \<Rightarrow> (case xs of [] \<Rightarrow> Inl IndexError | x # _ \<Rightarrow> Inr x)
      | JStr s \<Rightarrow> (case s of [] \<Rightarrow> Inl IndexError | c # _ \<Rightarrow> Inr (JStr [c]))
      | JDict d \<Rightarrow> Inl KeyError
      | _ \<Rightarrow> Inl TypeError)"

definition py_len :: "json \<Rightarrow> exn + nat" where
  "py_len obj =
     (case obj of
        JList xs \<Rightarrow> Inr (length xs)
      | JDict d \<Rightarrow> Inr (length d)
      | JStr s \<Rightarrow> Inr (length s)
      | _ \<Rightarrow> Inl TypeError)"

text \<open>\<^verbatim>\<open>obj.items()\<close> and \<^verbatim>\<open>obj.values()\<close> exist on dictionaries only.\<close>

definition py_items :: "json \<Rightarrow> exn + (string \<times> json) list" where
  "py_items obj = (case obj of JDict d \<Rightarrow> Inr d | _ \<Rightarrow> Inl AttributeError)"

text \<open>\<^verbatim>\<open>s.lower()\<close> on the ASCII letters.\<close>

definition lower_char :: "char \<Rightarrow> char" where
  "lower_char c =
     (if 65 \<le> (of_char c :: nat) \<and> (of_char c :: nat) \<le> 90
      then char_of ((of_char c :: nat) + 32) else c)"

definition lower :: "string \<Rightarrow> string" where
  "lower s = map lower_char s"

definition py_lower :: "json \<Rightarrow> exn + string" where
  "py_lower obj = (case obj of JStr s \<Rightarrow> Inr (lower s) | _ \<Rightarrow> Inl AttributeError)"

text \<open>
  \<^verbatim>\<open>s.strip()\<close> removes from both ends the characters for which \<^verbatim>\<open>str.isspace\<close> holds:
  U+0009 to U+000D, U+001C to U+0020, U+0085, U+00A0, U+1680, U+2000 to U+200A, U+2028,
  U+2029, U+202F, U+205F and U+3000. \<open>white_space\<close> lists their UTF-8 encodings; in a
  well-formed UTF-8 string such a byte sequence at either end is that character.
\<close>

definition white_space :: "string list" where
  "white_space =
     map (\<lambda>c. [c]) [CHR 0x09, CHR 0x0A, CHR 0x0B, CHR 0x0C, CHR 0x0D,
                     CHR 0x1C, CHR 0x1D, CHR 0x1E, CHR 0x1F, CHR 0x20]
     @ [[CHR 0xC2, CHR 0x85], [CHR 0xC2, CHR 0xA0], [CHR 0xE1, CHR 0x9A, CHR 0x80]]
     @ map (\<lambda>c. [CHR 0xE2, CHR 0x80, c])
         [CHR 0x80, CHR 0x81, CHR 0x82, CHR 0x83, CHR 0x84, CHR 0x85, CHR 0x86, CHR 0x87,
          CHR 0x88, CHR 0x89, CHR 0x8A, CHR 0xA8, CHR 0xA9, CHR 0xAF]
     @ [[CHR 0xE2, CHR 0x81, CHR 0x9F], [CHR 0xE3, CHR 0x80, CHR 0x80]]"

text \<open>Removing white space from the front; the first argument bounds the number of
  characters removed.\<close>

fun lstrip_upto :: "nat \<Rightarrow> string list \<Rightarrow> string \<Rightarrow> string" where
  "lstrip_upto 0 ws s = s"
| "lstrip_upto (Suc n) ws s =
     (case find (\<lambda>w. starts_with s w) ws of
        None \<Rightarrow> s
      | Some w \<Rightarrow> lstrip_upto n ws (drop (length w) s))"

definition lstrip :: "string list \<Rightarrow> string \<Rightarrow> string" where
  "lstrip ws s = lstrip_upto (length s) ws s"

definition strip :: "string \<Rightarrow> string" where
  "strip s = rev (lstrip (map rev white_space) (rev (lstrip white_space s)))"

text \<open>\<^verbatim>\<open>d.update(other)\<close>: a key that is present keeps its position and takes the new
  value, a new key is appended.\<close>

fun dict_set :: "(string \<times> json) list \<Rightarrow> string \<Rightarrow> json \<Rightarrow> (string \<times> json) list" where
  "dict_set [] k v = [(k, v)]"
| "dict_set ((k', v') # d) k v = (if k' = k then (k, v) # d else (k', v') # dict_set d k v)"

fun dict_update :: "(string \<times> json) list \<Rightarrow> (string \<times> json) list \<Rightarrow> (string \<times> json) list" where
  "dict_update d [] = d"
| "dict_update d ((k, v) # us) = dict_update (dict_set d k v) us"

text \<open>Reading a key of a dictionary that is known to hold it.\<close>

definition json_at :: "json \<Rightarrow> string \<Rightarrow> json option" where
  "json_at j k = (case j of JDict d \<Rightarrow> map_of d k | _ \<Rightarrow> None)"

section \<open>Double-precision arithmetic\<close>

text \<open>
  The progress percentage is computed as \<^verbatim>\<open>int((completed / total) * 100)\<close>: a true
  division of two integers, a multiplication by \<^verbatim>\<open>100.0\<close>, and a truncation. Each of the
  two operations returns the double nearest to the exact result, ties going to the even
  significand. \<open>fl\<close> is that rounding on the rationals: 53 significant bits, the smallest
  exponent of a normal number being -1022 (below it the spacing stays at \<open>2 powi - 1074\<close>).
  Overflow is not modelled; the values here are at most 100.
\<close>

definition rnd :: "rat \<Rightarrow> int" where
  "rnd r = (let f = \<lfloor>r\<rfloor>; d = r - of_int f
            in if d < 1 / 2 then f else if 1 / 2 < d then f + 1
               else if even f then f else f + 1)"

text \<open>The exponent of the binade of a positive rational: \<open>\<lfloor>log 2 q\<rfloor>\<close>.\<close>

definition ilog2 :: "rat \<Rightarrow> int" where
  "ilog2 q = (let (a, b) = quotient_of q; d = bitlen a - bitlen b
              in if 2 powi d \<le> q then d else d - 1)"

definition fl :: "rat \<Rightarrow> rat" where
  "fl q = (if q = 0 then 0
           else let e = max (ilog2 \<bar>q\<bar>) (- 1022) - 52
                in sgn q * of_int (rnd (\<bar>q\<bar> / 2 powi e)) * 2 powi e)"

text \<open>\<^verbatim>\<open>int(x)\<close> truncates towards zero.\<close>

definition py_int :: "rat \<Rightarrow> int" where
  "py_int r = (if 0 \<le> r then \<lfloor>r\<rfloor> else \<lceil>r\<rceil>)"

text \<open>The double computed by \<^verbatim>\<open>(completed / total) * 100\<close>, and
  \<^verbatim>\<open>int((completed / total) * 100) if total > 0 else 0\<close>.\<close>

definition pct_float :: "nat \<Rightarrow> nat \<Rightarrow> rat" where
  "pct_float n_completed n_total = fl (fl (of_nat n_completed / of_nat n_total) * 100)"

definition percent :: "nat \<Rightarrow> nat \<Rightarrow> int" where
  "percent n_completed n_total =
     (if 0 < n_total then py_int (pct_float n_completed n_total) else 0)"

section \<open>submit_pipeline.py\<close>

subsection \<open>The token from the kubeconfig\<close>

text \<open>
  \<^verbatim>\<open>get_openshift_token\<close> (the same function is in \<^verbatim>\<open>submit_pipeline_complete.py\<close>,
  \<^verbatim>\<open>submit_pipeline_fixed.py\<close> and \<^verbatim>\<open>submit_pipeline_storage_fixed.py\<close>). The file either
  cannot be opened or parsed, or \<^verbatim>\<open>yaml.safe_load\<close> returns a value.
\<close>

datatype kubeconfig =
    Unreadable
  | Loaded json

text \<open>
  The first loop: \<open>Inr (Some user_name)\<close> when it leaves through \<^verbatim>\<open>break\<close>, \<open>Inr None\<close>
  when it runs into its \<^verbatim>\<open>else\<close>, \<open>Inl e\<close> when a subscript raises.
\<close>

fun find_context_user :: "json \<Rightarrow> json list \<Rightarrow> exn + json option" where
  "find_context_user current_context [] = Inr None"
| "find_context_user current_context (context # rest) =
     bind_exn (py_getitem context ''name'') (\<lambda>name.
       if py_eq name current_context
       then bind_exn (py_getitem context ''context'') (\<lambda>c.
              bind_exn (py_getitem c ''user'') (\<lambda>user_name. Inr (Some user_name)))
       else find_context_user current_context rest)"

text \<open>
  The second loop: \<open>Inr (Some token)\<close> when it returns from inside, \<open>Inr None\<close> when it
  ends without a match. \<^verbatim>\<open>and\<close> does not look at \<^verbatim>\<open>user['user']\<close> when the name differs.
\<close>

fun find_user_token :: "json \<Rightarrow> json list \<Rightarrow> exn + json option" where
  "find_user_token user_name [] = Inr None"
| "find_user_token user_name (user # rest) =
     bind_exn (py_getitem user ''name'') (\<lambda>name.
       if py_eq name user_name
       then bind_exn (py_getitem user ''user'') (\<lambda>u.
              bind_exn (py_contains ''token'' u) (\<lambda>has_token.
                if has_token
                then bind_exn (py_getitem u ''token'') (\<lambda>token. Inr (Some token))
                else find_user_token user_name rest))
       else find_user_token user_name rest)"

text \<open>The body of the \<^verbatim>\<open>try\<close> once the file is loaded.\<close>

definition token_of_config :: "json \<Rightarrow> exn + json" where
  "token_of_config config =
     bind_exn (py_get config ''current-context'' JNull) (\<lambda>current_context.
       if \<not> truthy current_context then Inr JNull
       else bind_exn (py_get config ''contexts'' (JList [])) (\<lambda>cs.
            bind_exn (py_iter cs) (\<lambda>contexts.
            bind_exn (find_context_user current_context contexts) (\<lambda>found.
              case found of
                None \<Rightarrow> Inr JNull
              | Some user_name \<Rightarrow>
                  bind_exn (py_get config ''users'' (JList [])) (\<lambda>us.
                  bind_exn (py_iter us) (\<lambda>users.
                  bind_exn (find_user_token user_name users) (\<lambda>t.
                    case t of None \<Rightarrow> Inr JNull | Some token \<Rightarrow> Inr token)))))))"

text \<open>\<^verbatim>\<open>except Exception\<close> prints and falls through to \<^verbatim>\<open>return None\<close>.\<close>

definition get_openshift_token :: "kubeconfig \<Rightarrow> json" where
  "get_openshift_token f =
     (case f of
        Unreadable \<Rightarrow> JNull
      | Loaded config \<Rightarrow> (case token_of_config config of Inl e \<Rightarrow> JNull | Inr t \<Rightarrow> t))"

text \<open>
  The specification's reading of a kubeconfig, for comparison with
  \<open>get_openshift_token\<close>: the entries are looked up by name.
\<close>

definition entry_named :: "json \<Rightarrow> json \<Rightarrow> bool" where
  "entry_named e n = (case json_at e ''name'' of Some m \<Rightarrow> py_eq m n | None \<Rightarrow> False)"

definition context_user :: "json \<Rightarrow> json option" where
  "context_user c = (case json_at c ''context'' of Some cc \<Rightarrow> json_at cc ''user'' | None \<Rightarrow> None)"

definition user_token :: "json \<Rightarrow> json option" where
  "user_token u = (case json_at u ''user'' of Some uu \<Rightarrow> json_at uu ''token'' | None \<Rightarrow> None)"

definition config_list :: "json \<Rightarrow> string \<Rightarrow> json list" where
  "config_list config k = (case json_at config k of Some (JList xs) \<Rightarrow> xs | _ \<Rightarrow> [])"

text \<open>Following the words of the specification: the token field of the user entry that the
  current context refers to, \<^verbatim>\<open>None\<close> when a link of the chain is missing.\<close>

definition token_by_reference :: "json \<Rightarrow> json" where
  "token_by_reference config =
     (case json_at config ''current-context'' of
        None \<Rightarrow> JNull
      | Some cur \<Rightarrow>
          if \<not> truthy cur then JNull
          else
            (case find (\<lambda>c. entry_named c cur) (config_list config ''contexts'') of
               None \<Rightarrow> JNull
             | Some c \<Rightarrow>
                 (case context_user c of
                    None \<Rightarrow> JNull
                  | Some user_name \<Rightarrow>
                      (case find (\<lambda>u. entry_named u user_name) (config_list config ''users'') of
                         None \<Rightarrow> JNull
                       | Some u \<Rightarrow> (case user_token u of None \<Rightarrow> JNull | Some t \<Rightarrow> t)))))"

text \<open>The same with the user entry chosen as the code chooses it: the first one that has
  the name and a token.\<close>

definition first_token_by_reference :: "json \<Rightarrow> json" where
  "first_token_by_reference config =
     (case json_at config ''current-context'' of
        None \<Rightarrow> JNull
      | Some cur \<Rightarrow>
          if \<not> truthy cur then JNull
          else
            (case find (\<lambda>c. entry_named c cur) (config_list config ''contexts'') of
               None \<Rightarrow> JNull
             | Some c \<Rightarrow>
                 (case context_user c of
                    None \<Rightarrow> JNull
                  | Some user_name \<Rightarrow>
                      (case find (\<lambda>u. entry_named u user_name \<and> user_token u \<noteq> None)
                              (config_list config ''users'') of
                         None \<Rightarrow> JNull
                       | Some u \<Rightarrow> (case user_token u of None \<Rightarrow> JNull | Some t \<Rightarrow> t)))))"

text \<open>A kubeconfig whose entries have the keys the function subscripts.\<close>

definition well_formed_context :: "json \<Rightarrow> bool" where
  "well_formed_context c = (json_at c ''name'' \<noteq> None \<and> context_user c \<noteq> None)"

definition well_formed_user :: "json \<Rightarrow> bool" where
  "well_formed_user u =
     (json_at u ''name'' \<noteq> None
      \<and> (case json_at u ''user'' of Some (JDict d) \<Rightarrow> True | _ \<Rightarrow> False))"

definition listed :: "json \<Rightarrow> string \<Rightarrow> bool" where
  "listed config k =
     (case json_at config k of None \<Rightarrow> True | Some (JList xs) \<Rightarrow> True | _ \<Rightarrow> False)"

definition well_formed_config :: "json \<Rightarrow> bool" where
  "well_formed_config config =
     ((case config of JDict d \<Rightarrow> True | _ \<Rightarrow> False)
      \<and> listed config ''contexts'' \<and> listed config ''users''
      \<and> list_all well_formed_context (config_list config ''contexts'')
      \<and> list_all well_formed_user (config_list config ''users''))"

text \<open>Example files: a usual one, one with two user entries of the same name, and one
  whose first context entry has no name.\<close>

definition kube_entry_context :: "string \<Rightarrow> string \<Rightarrow> json" where
  "kube_entry_context n u =
     JDict [(''name'', JStr n), (''context'', JDict [(''cluster'', JStr ''c1''), (''user'', JStr u)])]"

definition example_kubeconfig :: json where
  "example_kubeconfig =
     JDict [(''current-context'', JStr ''dev''),
            (''contexts'', JList [kube_entry_context ''prod'' ''bob'', kube_entry_context ''dev'' ''alice'']),
            (''users'',
               JList [JDict [(''name'', JStr ''bob''), (''user'', JDict [(''token'', JStr ''sha256~bob'')])],
                      JDict [(''name'', JStr ''alice''),
                             (''user'', JDict [(''token'', JStr ''sha256~alice'')])]])]"

definition duplicate_user_kubeconfig :: json where
  "duplicate_user_kubeconfig =
     JDict [(''current-context'', JStr ''dev''),
            (''contexts'', JList [kube_entry_context ''dev'' ''alice'']),
            (''users'',
               JList [JDict [(''name'', JStr ''alice''),
                             (''user'', JDict [(''client-certificate-data'', JStr ''LS0t'')])],
                      JDict [(''name'', JStr ''alice''),
                             (''user'', JDict [(''token'', JStr ''sha256~alice'')])]])]"

definition nameless_context_kubeconfig :: json where
  "nameless_context_kubeconfig =
     JDict [(''current-context'', JStr ''dev''),
            (''contexts'',
               JList [JDict [(''context'', JDict [(''cluster'', JStr ''c1''), (''user'', JStr ''bob'')])],
                      kube_entry_context ''dev'' ''alice'']),
            (''users'',
               JList [JDict [(''name'', JStr ''alice''),
                             (''user'', JDict [(''token'', JStr ''sha256~alice'')])]])]"

subsection \<open>The run parameters\<close>

text \<open>The table \<^verbatim>\<open>default_params\<close> of \<^verbatim>\<open>submit_pipeline\<close>, in source order.\<close>

definition default_params :: "(string \<times> json) list" where
  "default_params =
    [(''output_model_name'', JStr ''fine-tuned-granite-7b''),
     (''output_model_registry_api_url'', JStr ''''),
     (''output_model_registry_name'', JStr ''''),
     (''output_model_version'', JStr ''''),
     (''output_oci_model_uri'', JStr ''''),
     (''output_oci_registry_secret'', JStr ''oci-output-push-secret''),
     (''sdg_base_model'', JStr ''oci://registry.redhat.io/rhoai/granite-7b-starter''),
     (''sdg_repo_url'', JStr ''https://github.com/cnuland/hello-chris-dev-taxonomy.git''),
     (''train_node_selectors'', JDict []),
     (''train_tolerations'',
        JList [JDict [(''key'', JStr ''nvidia.com/gpu''), (''operator'', JStr ''Equal''),
                      (''value'', JStr ''true''), (''effect'', JStr ''NoSchedule'')]]),
     (''sdg_teacher_secret'', JStr ''teacher-secret''),
     (''sdg_repo_secret'', JStr ''taxonomy-repo-secret''),
     (''eval_judge_secret'', JStr ''judge-secret''),
     (''train_gpu_identifier'', JStr ''nvidia.com/gpu''),
     (''eval_gpu_identifier'', JStr ''nvidia.com/gpu''),
     (''k8s_storage_class_name'', JStr ''gp3''),
     (''k8s_storage_size'', JStr ''50Gi''),
     (''sdg_scale_factor'', JInt 30),
     (''train_num_epochs_phase_1'', JInt 7),
     (''train_num_epochs_phase_2'', JInt 10),
     (''train_effective_batch_size_phase_1'', JInt 3840),
     (''train_effective_batch_size_phase_2'', JInt 3840),
     (''train_learning_rate_phase_1'', JFloat (2 / 1000000)),
     (''train_learning_rate_phase_2'', JFloat (1 / 1000000)),
     (''train_cpu_per_worker'', JStr ''8''),
     (''train_memory_per_worker'', JStr ''32Gi''),
     (''train_gpu_per_worker'', JInt 1),
     (''train_num_workers'', JInt 4),
     (''sdg_batch_size'', JInt 10),
     (''sdg_num_workers'', JInt 4),
     (''mt_bench_merge_system_user_message'', JBool False),
     (''final_eval_merge_system_user_message'', JBool False),
     (''mt_bench_max_workers'', JStr ''auto''),
     (''final_eval_max_workers'', JStr ''auto''),
     (''final_eval_batch_size'', JStr ''auto''),
     (''final_eval_few_shots'', JInt 5)]"

text \<open>The command line of \<^verbatim>\<open>submit_pipeline.py\<close> after \<^verbatim>\<open>parse_args\<close>: an option that
  was not given is \<^verbatim>\<open>None\<close>.\<close>

record submit_args =
  namespace :: string
  route :: bool
  repo_url :: "string option"
  base_model :: "string option"
  output_model_name :: "string option"

text \<open>\<^verbatim>\<open>if args.repo_url:\<close> is false for \<^verbatim>\<open>None\<close> and for the empty string.\<close>

definition given :: "string option \<Rightarrow> bool" where
  "given a = (case a of None \<Rightarrow> False | Some s \<Rightarrow> s \<noteq> [])"

definition main_custom_params :: "submit_args \<Rightarrow> (string \<times> json) list" where
  "main_custom_params args =
     (if given (repo_url args) then [(''sdg_repo_url'', JStr (the (repo_url args)))] else [])
   @ (if given (base_model args) then [(''sdg_base_model'', JStr (the (base_model args)))] else [])
   @ (if given (output_model_name args)
      then [(''output_model_name'', JStr (the (output_model_name args)))] else [])"

text \<open>\<^verbatim>\<open>main\<close> passes \<^verbatim>\<open>custom_params if custom_params else None\<close>; \<^verbatim>\<open>submit_pipeline\<close>
  updates the table only \<^verbatim>\<open>if custom_params\<close>.\<close>

definition main_custom_arg :: "submit_args \<Rightarrow> (string \<times> json) list option" where
  "main_custom_arg args =
     (if main_custom_params args \<noteq> [] then Some (main_custom_params args) else None)"

definition run_parameters :: "(string \<times> json) list option \<Rightarrow> (string \<times> json) list" where
  "run_parameters custom_params =
     (case custom_params of
        None \<Rightarrow> default_params
      | Some cp \<Rightarrow> if cp \<noteq> [] then dict_update default_params cp else default_params)"

definition payload :: "string \<Rightarrow> string \<Rightarrow> (string \<times> json) list option \<Rightarrow> json" where
  "payload pipeline_id version_id custom_params =
     JDict [(''display_name'', JStr ''instructlab-pipeline-run''),
            (''description'', JStr ''InstructLab SDG and Training Pipeline Run''),
            (''pipeline_version_reference'',
               JDict [(''pipeline_id'', JStr pipeline_id),
                      (''pipeline_version_id'', JStr version_id)]),
            (''runtime_config'',
               JDict [(''parameters'', JDict (run_parameters custom_params))])]"

definition runtime_parameters :: "json \<Rightarrow> (string \<times> json) list option" where
  "runtime_parameters p =
     (case json_at p ''runtime_config'' of
        Some rc \<Rightarrow> (case json_at rc ''parameters'' of Some (JDict ps) \<Rightarrow> Some ps | _ \<Rightarrow> None)
      | None \<Rightarrow> None)"

section \<open>submit_pipeline_nfs_storage.py and submit_pipeline_production.py\<close>

text \<open>
  The two scripts share their helpers; \<^verbatim>\<open>submit_pipeline_production.py\<close> prints the same
  lines with a leading mark. The printed lines below are those of
  \<^verbatim>\<open>submit_pipeline_nfs_storage.py\<close>.
\<close>

subsection \<open>Helpers\<close>

text \<open>The UTF-8 bytes of the marks U+2705 and U+274C that start some printed lines.\<close>

definition check_mark :: string where
  "check_mark = [CHR 0xE2, CHR 0x9C, CHR 0x85]"

definition cross_mark :: string where
  "cross_mark = [CHR 0xE2, CHR 0x9D, CHR 0x8C]"

text \<open>\<^verbatim>\<open>get_bearer_token\<close> and \<^verbatim>\<open>get_dspa_route\<close> catch \<open>CalledProcessError\<close> only, print
  it and call \<^verbatim>\<open>sys.exit(1)\<close>.\<close>

definition get_bearer_token :: "string call \<Rightarrow> line list \<times> string outcome" where
  "get_bearer_token r =
     (case r of
        Completed out \<Rightarrow> ([], Returned (strip out))
      | Raises (CalledProcessError err) \<Rightarrow>
          ([Text_exn ''Error getting token: '' (CalledProcessError err)], Sys_exit 1)
      | Raises e \<Rightarrow> ([], Uncaught e))"

definition get_dspa_route :: "string call \<Rightarrow> line list \<times> string outcome" where
  "get_dspa_route r =
     (case r of
        Completed out \<Rightarrow> ([], Returned (strip out))
      | Raises (CalledProcessError err) \<Rightarrow>
          ([Text_exn ''Error getting route: '' (CalledProcessError err)], Sys_exit 1)
      | Raises e \<Rightarrow> ([], Uncaught e))"

text \<open>The loop of \<^verbatim>\<open>get_pipeline_info\<close> that looks for a pipeline whose display name
  contains \<^verbatim>\<open>instructlab\<close>.\<close>

fun find_instructlab :: "json list \<Rightarrow> exn + json option" where
  "find_instructlab [] = Inr None"
| "find_instructlab (pipeline # rest) =
     bind_exn (py_get pipeline ''display_name'' (JStr [])) (\<lambda>display_name.
     bind_exn (py_lower display_name) (\<lambda>l.
       if is_substring ''instructlab'' l then Inr (Some pipeline)
       else find_instructlab rest))"

text \<open>The lines printed by the body of the \<^verbatim>\<open>try\<close> and its result; the call is the
  request together with \<^verbatim>\<open>raise_for_status\<close> and \<^verbatim>\<open>response.json()\<close>.\<close>

definition announce_and_id :: "string \<Rightarrow> json \<Rightarrow> line list \<times> (exn + json)" where
  "announce_and_id words pipeline =
     (case py_getitem pipeline ''display_name'' of
        Inl e \<Rightarrow> ([], Inl e)
      | Inr display_name \<Rightarrow> ([Text_value words display_name], py_getitem pipeline ''id''))"

definition pipeline_info_body :: "json \<Rightarrow> line list \<times> (exn + json)" where
  "pipeline_info_body data =
     (case py_contains ''pipelines'' data of
        Inl e \<Rightarrow> ([], Inl e)
      | Inr False \<Rightarrow> ([Text ''No pipelines found''], Inr JNull)
      | Inr True \<Rightarrow>
          (case py_getitem data ''pipelines'' of
             Inl e \<Rightarrow> ([], Inl e)
           | Inr ps \<Rightarrow>
               if \<not> truthy ps then ([Text ''No pipelines found''], Inr JNull)
               else
                 (case bind_exn (py_iter ps) find_instructlab of
                    Inl e \<Rightarrow> ([], Inl e)
                  | Inr (Some pipeline) \<Rightarrow>
                      announce_and_id ''Found InstructLab pipeline: '' pipeline
                  | Inr None \<Rightarrow>
                      (case py_first ps of
                         Inl e \<Rightarrow> ([], Inl e)
                       | Inr pipeline \<Rightarrow> announce_and_id ''Using pipeline: '' pipeline))))"

definition get_pipeline_info :: "json call \<Rightarrow> line list \<times> json outcome" where
  "get_pipeline_info r =
     (case r of
        Raises e \<Rightarrow>
          if e = KeyboardInterrupt then ([], Uncaught e)
          else ([Text_exn ''Error getting pipeline info: '' e], Returned JNull)
      | Completed data \<Rightarrow>
          (case pipeline_info_body data of
             (ls, Inl e) \<Rightarrow> (ls @ [Text_exn ''Error getting pipeline info: '' e], Returned JNull)
           | (ls, Inr v) \<Rightarrow> (ls, Returned v)))"

text \<open>
  \<^verbatim>\<open>submit_pipeline_run\<close>: the handler prints the exception and, when the exception has
  an attribute \<^verbatim>\<open>response\<close>, the text of that response; reading the text of a response that
  is \<^verbatim>\<open>None\<close> raises inside the handler.
\<close>

definition submit_run_body :: "json \<Rightarrow> exn + json \<times> json" where
  "submit_run_body run_data =
     bind_exn (py_get run_data ''run'' (JDict [])) (\<lambda>r1.
     bind_exn (py_get r1 ''id'' JNull) (\<lambda>run_id.
     bind_exn (py_get run_data ''run'' (JDict [])) (\<lambda>r2.
     bind_exn (py_get r2 ''name'' JNull) (\<lambda>run_name. Inr (run_id, run_name)))))"

definition submit_run_handler :: "exn \<Rightarrow> line list \<times> (json \<times> json) outcome" where
  "submit_run_handler e =
     (case e of
        KeyboardInterrupt \<Rightarrow> ([], Uncaught e)
      | RequestError None \<Rightarrow>
          ([Text_exn ''Error submitting pipeline run: '' e], Uncaught AttributeError)
      | RequestError (Some body) \<Rightarrow>
          ([Text_exn ''Error submitting pipeline run: '' e, Text (''Response: '' @ body)],
           Returned (JNull, JNull))
      | _ \<Rightarrow> ([Text_exn ''Error submitting pipeline run: '' e], Returned (JNull, JNull)))"

definition submit_pipeline_run :: "json call \<Rightarrow> line list \<times> (json \<times> json) outcome" where
  "submit_pipeline_run r =
     (case r of
        Raises e \<Rightarrow> submit_run_handler e
      | Completed run_data \<Rightarrow>
          (case submit_run_body run_data of
             Inl e \<Rightarrow> submit_run_handler e
           | Inr (run_id, run_name) \<Rightarrow>
               ([Text (check_mark @ '' Pipeline run submitted successfully!''),
                 Text_value ''Run ID: '' run_id, Text_value ''Run Name: '' run_name],
                Returned (run_id, run_name))))"

subsection \<open>What one poll of the run sees\<close>

text \<open>
  Both \<^verbatim>\<open>monitor_pipeline_run\<close> functions read the run's status and, when the run has a
  workflow manifest, parse it and read the phase of every node. \<^verbatim>\<open>json.loads\<close> is a
  parameter: \<open>loads s = None\<close> when it raises \<^verbatim>\<open>JSONDecodeError\<close> on \<open>s\<close>; it raises
  \<open>TypeError\<close> on a manifest that is not a string.
\<close>

datatype observation =
    No_manifest json
  | Bad_manifest json
  | Observed json "(string \<times> json) list"

fun phases :: "(string \<times> json) list \<Rightarrow> exn + (string \<times> json) list" where
  "phases [] = Inr []"
| "phases ((name, node) # rest) =
     bind_exn (py_get node ''phase'' JNull) (\<lambda>phase.
     bind_exn (phases rest) (\<lambda>ps. Inr ((name, phase) # ps)))"

definition observe :: "(string \<Rightarrow> json option) \<Rightarrow> json \<Rightarrow> exn + observation" where
  "observe loads data =
     bind_exn (py_get data ''run'' (JDict [])) (\<lambda>run_detail.
     bind_exn (py_get run_detail ''status'' (JStr ''Unknown'')) (\<lambda>status.
     bind_exn (py_get run_detail ''pipeline_runtime'' (JDict [])) (\<lambda>pipeline_runtime.
     bind_exn (py_get pipeline_runtime ''workflow_manifest'' JNull) (\<lambda>workflow_manifest.
       if \<not> truthy workflow_manifest then Inr (No_manifest status)
       else
         (case workflow_manifest of
            JStr s \<Rightarrow>
              (case loads s of
                 None \<Rightarrow> Inr (Bad_manifest status)
               | Some workflow_data \<Rightarrow>
                   bind_exn (py_get workflow_data ''status'' (JDict [])) (\<lambda>workflow_status.
                   bind_exn (py_get workflow_status ''nodes'' (JDict [])) (\<lambda>nodes.
                   bind_exn (py_len nodes) (\<lambda>n_total.
                   bind_exn (py_items nodes) (\<lambda>items.
                   bind_exn (phases items) (\<lambda>ps. Inr (Observed status ps)))))))
          | _ \<Rightarrow> Inl TypeError)))))"

definition terminal :: "json \<Rightarrow> bool" where
  "terminal status =
     (status = JStr ''Succeeded'' \<or> status = JStr ''Failed'' \<or> status = JStr ''Error'')"

text \<open>The nodes counted as completed: phase \<^verbatim>\<open>Succeeded\<close>, \<^verbatim>\<open>Failed\<close> or \<^verbatim>\<open>Error\<close>.\<close>

definition count_completed :: "(string \<times> json) list \<Rightarrow> nat" where
  "count_completed ps = length (filter (\<lambda>np. terminal (snd np)) ps)"

definition failed_names :: "(string \<times> json) list \<Rightarrow> string list" where
  "failed_names ps = map fst (filter (\<lambda>np. snd np = JStr ''Failed'') ps)"

text \<open>One pass through the body of a polling loop: it returns from the function, goes on
  to the next pass with a new state, or raises with the state it has reached.\<close>

datatype ('s, 'a) step =
    Return 'a
  | Continue 's
  | Raise 's exn

text \<open>
  What the outside world does during one pass of a polling loop: the event of the pass (the
  answer to its request), the seconds the pass takes before it sleeps (its latency), and
  what happens to the \<^verbatim>\<open>time.sleep\<close> that follows. A sleep either lasts its full time or is
  cut short, after the given number of seconds, by the user's interrupt, which raises
  \<open>KeyboardInterrupt\<close> at the call of \<^verbatim>\<open>time.sleep\<close>. The user's interrupt reaches the process
  where it waits: in the request (the event is then \<open>Raises KeyboardInterrupt\<close>) or in the
  sleep.
\<close>

datatype nap =
    Rested
  | Woken nat

text \<open>
  A finished call of a monitoring function: what it did, the arguments of its
  \<^verbatim>\<open>time.sleep\<close> calls in order (the last of them may have been cut short), and the
  wall-clock time, in seconds since the call began, at which it ended.
\<close>

record 'a run =
  outcome :: "'a outcome"
  slept :: "nat list"
  clock :: nat

subsection \<open>The common shape of the polling loops\<close>



subsection \<open>monitor_pipeline_run of submit_pipeline_nfs_storage.py\<close>

text \<open>The state is \<^verbatim>\<open>last_status\<close>. Both \<^verbatim>\<open>break\<close>s lead to the end of the function,
  which returns \<^verbatim>\<open>None\<close>.\<close>

definition nfs_pass :: "(string \<Rightarrow> json option) \<Rightarrow> json call \<Rightarrow> json \<Rightarrow> (json, bool option) step" where
  "nfs_pass loads r last_status =
     (case r of
        Raises e \<Rightarrow> Raise last_status e
      | Completed data \<Rightarrow>
          (case observe loads data of
             Inl e \<Rightarrow> Raise last_status e
           | Inr (No_manifest status) \<Rightarrow> Continue last_status
           | Inr (Bad_manifest status) \<Rightarrow> Continue last_status
           | Inr (Observed status ps) \<Rightarrow>
               if terminal status then Return None
               else Continue (if \<not> py_eq status last_status then status else last_status)))"

text \<open>The loop is \<^verbatim>\<open>while True\<close>; a pass that went through sleeps 30 seconds, the handler
  of \<^verbatim>\<open>except Exception\<close> sleeps 60.\<close>

fun monitor_loop_nfs ::
  "(string \<Rightarrow> json option) \<Rightarrow> (nat \<Rightarrow> json call \<times> nat \<times> nap) \<Rightarrow> nat \<Rightarrow> nat \<Rightarrow> nat \<Rightarrow> json
     \<Rightarrow> nat list \<Rightarrow> bool option run option" where
  "monitor_loop_nfs loads env 0 i now last_status sl = None"
| "monitor_loop_nfs loads env (Suc fuel) i now last_status sl =
     (case env i of (r, latency, nap) \<Rightarrow>
        (case nfs_pass loads r last_status of
           Return v \<Rightarrow> Some \<lparr>outcome = Returned v, slept = sl, clock = now + latency\<rparr>
         | Continue st \<Rightarrow>
             (case nap of
                Woken t \<Rightarrow>
                  Some \<lparr>outcome = Returned None, slept = sl @ [30],
                        clock = now + latency + min t 30\<rparr>
              | Rested \<Rightarrow>
                  monitor_loop_nfs loads env fuel (i + 1) (now + latency + 30) st (sl @ [30]))
         | Raise st e \<Rightarrow>
             if e = KeyboardInterrupt
             then Some \<lparr>outcome = Returned None, slept = sl, clock = now + latency\<rparr>
             else
               (case nap of
                  Woken t \<Rightarrow>
                    Some \<lparr>outcome = Uncaught KeyboardInterrupt, slept = sl @ [60],
                          clock = now + latency + min t 60\<rparr>
                | Rested \<Rightarrow>
                    monitor_loop_nfs loads env fuel (i + 1) (now + latency + 60) st
                      (sl @ [60]))))"


text \<open>The call: \<open>None\<close> when the given number of passes does not bring the loop to its
  end.\<close>

definition monitor_pipeline_run_nfs ::
  "(string \<Rightarrow> json option) \<Rightarrow> (nat \<Rightarrow> json call \<times> nat \<times> nap) \<Rightarrow> nat
     \<Rightarrow> bool option run option" where
  "monitor_pipeline_run_nfs loads env fuel = monitor_loop_nfs loads env fuel 1 0 JNull []"

subsection \<open>monitor_pipeline_run of submit_pipeline_production.py\<close>

definition max_duration :: nat where
  "max_duration = 24 * 60 * 60"

definition check_interval :: nat where
  "check_interval = 10 * 60"

text \<open>The state is \<^verbatim>\<open>(last_status, last_progress)\<close>.\<close>

definition production_pass ::
  "(string \<Rightarrow> json option) \<Rightarrow> json call \<Rightarrow> json \<times> int \<Rightarrow> (json \<times> int, bool option) step" where
  "production_pass loads r st =
     (case r of
        Raises e \<Rightarrow> Raise st e
      | Completed data \<Rightarrow>
          (case observe loads data of
             Inl e \<Rightarrow> Raise st e
           | Inr (No_manifest status) \<Rightarrow> Continue st
           | Inr (Bad_manifest status) \<Rightarrow> Continue st
           | Inr (Observed status ps) \<Rightarrow>
               (let pct = percent (count_completed ps) (length ps) in
                if \<not> py_eq status (fst st) \<or> pct \<noteq> snd st
                then
                  (if failed_names ps \<noteq> [] then Return (Some False)
                   else if terminal status then Return (Some (status = JStr ''Succeeded''))
                   else Continue (status, pct))
                else if terminal status then Return (Some (status = JStr ''Succeeded''))
                else Continue st)))"

text \<open>Both sleeps last \<^verbatim>\<open>check_interval\<close>. The \<^verbatim>\<open>break\<close> of the interrupt handler and
  the end of the loop lead to the same \<^verbatim>\<open>return None\<close>.\<close>

fun monitor_loop_production ::
  "(string \<Rightarrow> json option) \<Rightarrow> (nat \<Rightarrow> json call \<times> nat \<times> nap) \<Rightarrow> nat \<Rightarrow> nat \<Rightarrow> nat
     \<Rightarrow> json \<times> int \<Rightarrow> nat list \<Rightarrow> bool option run option" where
  "monitor_loop_production loads env 0 i now st sl = None"
| "monitor_loop_production loads env (Suc fuel) i now st sl =
     (if now < max_duration then
        (case env i of (r, latency, nap) \<Rightarrow>
           (case production_pass loads r st of
              Return v \<Rightarrow> Some \<lparr>outcome = Returned v, slept = sl, clock = now + latency\<rparr>
            | Continue st' \<Rightarrow>
                (case nap of
                   Woken t \<Rightarrow>
                     Some \<lparr>outcome = Returned None, slept = sl @ [check_interval],
                           clock = now + latency + min t check_interval\<rparr>
                 | Rested \<Rightarrow>
                     monitor_loop_production loads env fuel (i + 1)
                       (now + latency + check_interval) st' (sl @ [check_interval]))
            | Raise st' e \<Rightarrow>
                if e = KeyboardInterrupt
                then Some \<lparr>outcome = Returned None, slept = sl, clock = now + latency\<rparr>
                else
                  (case nap of
                     Woken t \<Rightarrow>
                       Some \<lparr>outcome = Uncaught KeyboardInterrupt,
                             slept = sl @ [check_interval],
                             clock = now + latency + min t check_interval\<rparr>
                   | Rested \<Rightarrow>
                       monitor_loop_production loads env fuel (i + 1)
                         (now + latency + check_interval) st' (sl @ [check_interval]))))
      else Some \<lparr>outcome = Returned None, slept = sl, clock = now\<rparr>)"


definition monitor_pipeline_run_production ::
  "(string \<Rightarrow> json option) \<Rightarrow> (nat \<Rightarrow> json call \<times> nat \<times> nap) \<Rightarrow> nat
     \<Rightarrow> bool option run option" where
  "monitor_pipeline_run_production loads env fuel =
     monitor_loop_production loads env fuel 1 0 (JNull, - 1) []"

subsection \<open>The entry points\<close>

text \<open>The command line after \<^verbatim>\<open>parse_args\<close> and what the outside world answers to each
  call of \<^verbatim>\<open>main\<close>.\<close>

record v1_args =
  arg_route :: "string option"
  arg_namespace :: string
  arg_monitor :: bool
  arg_no_monitor :: bool

record v1_world =
  token_call :: "string call"
  route_call :: "string call"
  pipelines_call :: "json call"
  submit_call :: "json call"
  json_loads :: "string \<Rightarrow> json option"
  polls :: "nat \<Rightarrow> json call \<times> nat \<times> nap"

text \<open>The steps both entry points share, up to the submitted run: the run id, or the way
  the process ends.\<close>

definition submit_steps :: "v1_args \<Rightarrow> v1_world \<Rightarrow> json outcome" where
  "submit_steps args w =
     (case snd (get_bearer_token (token_call w)) of
        Sys_exit n \<Rightarrow> Sys_exit n
      | Uncaught e \<Rightarrow> Uncaught e
      | Returned token \<Rightarrow>
          (case (if given (arg_route args) then Returned (the (arg_route args))
                 else snd (get_dspa_route (route_call w))) of
             Sys_exit n \<Rightarrow> Sys_exit n
           | Uncaught e \<Rightarrow> Uncaught e
           | Returned dspa_host \<Rightarrow>
               (case snd (get_pipeline_info (pipelines_call w)) of
                  Sys_exit n \<Rightarrow> Sys_exit n
                | Uncaught e \<Rightarrow> Uncaught e
                | Returned pipeline_id \<Rightarrow>
                    if \<not> truthy pipeline_id then Sys_exit 1
                    else
                      (case snd (submit_pipeline_run (submit_call w)) of
                         Sys_exit n \<Rightarrow> Sys_exit n
                       | Uncaught e \<Rightarrow> Uncaught e
                       | Returned (run_id, run_name) \<Rightarrow>
                           if \<not> truthy run_id then Sys_exit 1 else Returned run_id))))"

text \<open>\<^verbatim>\<open>main\<close> of \<^verbatim>\<open>submit_pipeline_production.py\<close>: it monitors unless \<^verbatim>\<open>--no-monitor\<close>
  is given and turns the result into the exit status. Falling off the end of \<^verbatim>\<open>main\<close> is
  \<open>Returned ()\<close>.\<close>

definition main_production :: "v1_args \<Rightarrow> v1_world \<Rightarrow> nat \<Rightarrow> unit outcome option" where
  "main_production args w fuel =
     (case submit_steps args w of
        Sys_exit n \<Rightarrow> Some (Sys_exit n)
      | Uncaught e \<Rightarrow> Some (Uncaught e)
      | Returned run_id \<Rightarrow>
          if \<not> arg_no_monitor args then
            (case monitor_pipeline_run_production (json_loads w) (polls w) fuel of
               None \<Rightarrow> None
             | Some r \<Rightarrow>
                 (case outcome r of
                    Returned success \<Rightarrow>
                      if success = Some True then Some (Sys_exit 0)
                      else if success = Some False then Some (Sys_exit 1)
                      else Some (Sys_exit 2)
                  | Sys_exit n \<Rightarrow> Some (Sys_exit n)
                  | Uncaught e \<Rightarrow> Some (Uncaught e)))
          else Some (Returned ()))"

text \<open>\<^verbatim>\<open>main\<close> of \<^verbatim>\<open>submit_pipeline_nfs_storage.py\<close>: it monitors when \<^verbatim>\<open>--monitor\<close> is
  given and ends normally whatever the monitoring found.\<close>

definition main_nfs :: "v1_args \<Rightarrow> v1_world \<Rightarrow> nat \<Rightarrow> unit outcome option" where
  "main_nfs args w fuel =
     (case submit_steps args w of
        Sys_exit n \<Rightarrow> Some (Sys_exit n)
      | Uncaught e \<Rightarrow> Some (Uncaught e)
      | Returned run_id \<Rightarrow>
          if arg_monitor args then
            (case monitor_pipeline_run_nfs (json_loads w) (polls w) fuel of
               None \<Rightarrow> None
             | Some r \<Rightarrow>
                 (case outcome r of
                    Returned v \<Rightarrow> Some (Returned ())
                  | Sys_exit n \<Rightarrow> Some (Sys_exit n)
                  | Uncaught e \<Rightarrow> Some (Uncaught e)))
          else Some (Returned ()))"

subsection \<open>Example inputs\<close>

text \<open>A listing without an InstructLab pipeline, whose entries have the keys \<^verbatim>\<open>id\<close> and
  \<^verbatim>\<open>name\<close>.\<close>

definition unrelated_pipelines :: json where
  "unrelated_pipelines =
     JDict [(''pipelines'',
              JList [JDict [(''id'', JStr ''5f0c-demo''), (''name'', JStr ''iris-training'')]]),
            (''total_size'', JInt 1)]"

text \<open>
  A world in which the token and the route are found and every request is refused: the
  \<^verbatim>\<open>ConnectionError\<close> of \<^verbatim>\<open>requests\<close> has no response. And a world in which the pipeline is
  found and the server answers the submission with status 500, so that
  \<^verbatim>\<open>raise_for_status\<close> raises an \<^verbatim>\<open>HTTPError\<close> that carries the response.
\<close>

definition failed_world :: v1_world where
  "failed_world =
     \<lparr>token_call = Completed (''sha256~abc'' @ [CHR 0x0A]),
      route_call = Completed ''ds-pipeline-dspa.apps.example.org'',
      pipelines_call = Raises (RequestError None),
      submit_call = Raises (RequestError None),
      json_loads = (\<lambda>s. None),
      polls = (\<lambda>i. (Raises (RequestError None), 0, Rested))\<rparr>"

definition rejected_world :: v1_world where
  "rejected_world =
     \<lparr>token_call = Completed (''sha256~abc'' @ [CHR 0x0A]),
      route_call = Completed ''ds-pipeline-dspa.apps.example.org'',
      pipelines_call =
        Completed (JDict [(''pipelines'',
                           JList [JDict [(''id'', JStr ''7c1d-ilab''),
                                         (''display_name'', JStr ''InstructLab'')]])]),
      submit_call = Raises (RequestError (Some ''Internal Server Error'')),
      json_loads = (\<lambda>s. None),
      polls = (\<lambda>i. (Raises (RequestError None), 0, Rested))\<rparr>"

definition default_args :: v1_args where
  "default_args =
     \<lparr>arg_route = None, arg_namespace = ''petloan-instructlab'', arg_monitor = False,
      arg_no_monitor = False\<rparr>"

section \<open>monitor_production_pipeline.py\<close>

subsection \<open>Reading the workflow\<close>

text \<open>\<^verbatim>\<open>run_kubectl\<close> catches \<open>CalledProcessError\<close> only: the lines it prints, and the
  stripped output, \<^verbatim>\<open>None\<close>, or the exception that escapes.\<close>

definition run_kubectl :: "string \<Rightarrow> string call \<Rightarrow> line list \<times> (exn + string option)" where
  "run_kubectl cmd r =
     (case r of
        Completed out \<Rightarrow> ([], Inr (Some (strip out)))
      | Raises (CalledProcessError err) \<Rightarrow>
          ([Text (cross_mark @ '' Error running command: '' @ cmd), Text (''Error: '' @ err)],
           Inr None)
      | Raises e \<Rightarrow> ([], Inl e))"

text \<open>\<^verbatim>\<open>get_workflow_status\<close>: \<^verbatim>\<open>None\<close> when there is no output or the output is not
  JSON.\<close>

definition get_workflow_status ::
  "(string \<Rightarrow> json option) \<Rightarrow> string \<Rightarrow> string call \<Rightarrow> line list \<times> (exn + json)" where
  "get_workflow_status loads workflow_name r =
     (case run_kubectl (''kubectl get workflow '' @ workflow_name
                          @ '' -n petloan-instructlab -o json'') r of
        (ls, Inl e) \<Rightarrow> (ls, Inl e)
      | (ls, Inr None) \<Rightarrow> (ls, Inr JNull)
      | (ls, Inr (Some output)) \<Rightarrow>
          if output \<noteq> [] then
            (case loads output of Some j \<Rightarrow> (ls, Inr j) | None \<Rightarrow> (ls, Inr JNull))
          else (ls, Inr JNull))"

subsection \<open>analyze_workflow_progress\<close>

text \<open>The four lists the loop over the nodes fills, in the order of the nodes.\<close>

record buckets =
  completed :: "string list"
  running :: "string list"
  failed :: "string list"
  pending :: "string list"

definition no_nodes :: buckets where
  "no_nodes = \<lparr>completed = [], running = [], failed = [], pending = []\<rparr>"

definition place :: "string \<Rightarrow> json \<Rightarrow> buckets \<Rightarrow> buckets" where
  "place name phase b =
     (if phase = JStr ''Succeeded'' then b\<lparr>completed := completed b @ [name]\<rparr>
      else if phase = JStr ''Running'' then b\<lparr>running := running b @ [name]\<rparr>
      else if phase = JStr ''Failed'' \<or> phase = JStr ''Error''
      then b\<lparr>failed := failed b @ [name]\<rparr>
      else if phase = JStr ''Pending'' then b\<lparr>pending := pending b @ [name]\<rparr>
      else b)"

fun sort_nodes :: "(string \<times> json) list \<Rightarrow> buckets \<Rightarrow> exn + buckets" where
  "sort_nodes [] b = Inr b"
| "sort_nodes ((name, node) # rest) b =
     bind_exn (py_get node ''phase'' (JStr ''Unknown'')) (\<lambda>phase.
       sort_nodes rest (place name phase b))"


text \<open>The dictionary that \<^verbatim>\<open>analyze_workflow_progress\<close> returns.\<close>

record progress_info =
  workflow_status :: json
  start_time :: json
  finish_time :: json
  total_nodes :: nat
  completed_nodes :: nat
  running_nodes :: nat
  failed_nodes :: nat
  pending_nodes :: nat
  progress_pct :: int
  failed_node_names :: "string list"
  running_node_names :: "string list"
  completed_node_names :: "string list"

definition analyze_workflow_progress :: "json \<Rightarrow> exn + progress_info option" where
  "analyze_workflow_progress workflow_data =
     (if \<not> truthy workflow_data then Inr None
      else
        bind_exn (py_get workflow_data ''status'' (JDict [])) (\<lambda>status.
        bind_exn (py_get status ''phase'' (JStr ''Unknown'')) (\<lambda>phase.
        bind_exn (py_get workflow_data ''metadata'' (JDict [])) (\<lambda>metadata.
        bind_exn (py_get metadata ''creationTimestamp'' JNull) (\<lambda>created.
        bind_exn (py_get status ''finishedAt'' JNull) (\<lambda>finished.
        bind_exn (py_get status ''nodes'' (JDict [])) (\<lambda>nodes.
        bind_exn (py_len nodes) (\<lambda>n_total.
        bind_exn (py_items nodes) (\<lambda>items.
        bind_exn (sort_nodes items no_nodes) (\<lambda>b.
          Inr (Some \<lparr>workflow_status = phase,
                      start_time = created,
                      finish_time = finished,
                      total_nodes = n_total,
                      completed_nodes = length (completed b),
                      running_nodes = length (running b),
                      failed_nodes = length (failed b),
                      pending_nodes = length (pending b),
                      progress_pct = percent (length (completed b)) n_total,
                      failed_node_names = failed b,
                      running_node_names = running b,
                      completed_node_names = completed b\<rparr>)))))))))))"



definition node_phase :: "json \<Rightarrow> exn + json" where
  "node_phase node = py_get node ''phase'' (JStr ''Unknown'')"

definition nodes_in_phase :: "string list \<Rightarrow> (string \<times> json) list \<Rightarrow> string list" where
  "nodes_in_phase phases_wanted items =
     map fst (filter (\<lambda>item. node_phase (snd item) \<in> set (map (\<lambda>p. Inr (JStr p)) phases_wanted))
                items)"

text \<open>An example input: a running workflow of \<open>n\<close> nodes of which the first \<open>k\<close> have
  succeeded and the others are running.\<close>

definition node_name :: "nat \<Rightarrow> string" where
  "node_name i = ''step-'' @ [char_of (48 + i div 10), char_of (48 + i mod 10)]"

definition node_in_phase :: "string \<Rightarrow> nat \<Rightarrow> string \<times> json" where
  "node_in_phase phase i = (node_name i, JDict [(''phase'', JStr phase)])"


subsection \<open>monitor_pipeline\<close>

text \<open>What \<^verbatim>\<open>print_status_update\<close> returns: \<^verbatim>\<open>None\<close> without a status, \<^verbatim>\<open>False\<close> when a
  node has failed, \<^verbatim>\<open>True\<close> otherwise.\<close>

definition print_status_update :: "progress_info option \<Rightarrow> bool option" where
  "print_status_update info =
     (case info of
        None \<Rightarrow> None
      | Some p \<Rightarrow> if 0 < failed_nodes p then Some False else Some True)"

definition workflow_name :: string where
  "workflow_name = ''instructlab-production-z4fqp''"

text \<open>One pass of the loop; the state is \<^verbatim>\<open>last_progress\<close>. \<^verbatim>\<open>if not success\<close> holds for
  \<^verbatim>\<open>None\<close> and for \<^verbatim>\<open>False\<close>.\<close>

definition monitor_pass ::
  "(string \<Rightarrow> json option) \<Rightarrow> string call \<Rightarrow> nat \<Rightarrow> int \<Rightarrow> (int, bool option) step" where
  "monitor_pass loads r iteration last_progress =
     (case snd (get_workflow_status loads workflow_name r) of
        Inl e \<Rightarrow> Raise last_progress e
      | Inr workflow_data \<Rightarrow>
          (case analyze_workflow_progress workflow_data of
             Inl e \<Rightarrow> Raise last_progress e
           | Inr info \<Rightarrow>
               (let should_print =
                      (case info of
                         None \<Rightarrow> True
                       | Some p \<Rightarrow> progress_pct p \<noteq> last_progress \<or> iteration mod 6 = 1
                                    \<or> 0 < failed_nodes p \<or> terminal (workflow_status p))
                in if should_print then
                     (if print_status_update info \<noteq> Some True then Return (Some False)
                      else
                        (case info of
                           None \<Rightarrow> Continue last_progress
                         | Some p \<Rightarrow>
                             if terminal (workflow_status p)
                             then Return (Some (workflow_status p = JStr ''Succeeded''))
                             else Continue (progress_pct p)))
                   else Continue last_progress)))"

text \<open>Both sleeps last \<^verbatim>\<open>check_interval\<close> and both are followed by
  \<^verbatim>\<open>iteration += 1\<close>.\<close>

fun monitor_loop ::
  "(string \<Rightarrow> json option) \<Rightarrow> (nat \<Rightarrow> string call \<times> nat \<times> nap) \<Rightarrow> nat \<Rightarrow> nat \<Rightarrow> nat \<Rightarrow> int
     \<Rightarrow> nat list \<Rightarrow> bool option run option" where
  "monitor_loop loads env 0 iteration now last_progress sl = None"
| "monitor_loop loads env (Suc fuel) iteration now last_progress sl =
     (if now < max_duration then
        (case env iteration of (r, latency, nap) \<Rightarrow>
           (case monitor_pass loads r iteration last_progress of
              Return v \<Rightarrow> Some \<lparr>outcome = Returned v, slept = sl, clock = now + latency\<rparr>
            | Continue lp \<Rightarrow>
                (case nap of
                   Woken t \<Rightarrow>
                     Some \<lparr>outcome = Returned None, slept = sl @ [check_interval],
                           clock = now + latency + min t check_interval\<rparr>
                 | Rested \<Rightarrow>
                     monitor_loop loads env fuel (iteration + 1)
                       (now + latency + check_interval) lp (sl @ [check_interval]))
            | Raise lp e \<Rightarrow>
                if e = KeyboardInterrupt
                then Some \<lparr>outcome = Returned None, slept = sl, clock = now + latency\<rparr>
                else
                  (case nap of
                     Woken t \<Rightarrow>
                       Some \<lparr>outcome = Uncaught KeyboardInterrupt,
                             slept = sl @ [check_interval],
                             clock = now + latency + min t check_interval\<rparr>
                   | Rested \<Rightarrow>
                       monitor_loop loads env fuel (iteration + 1)
                         (now + latency + check_interval) lp (sl @ [check_interval]))))
      else Some \<lparr>outcome = Returned None, slept = sl, clock = now\<rparr>)"


definition monitor_pipeline ::
  "(string \<Rightarrow> json option) \<Rightarrow> (nat \<Rightarrow> string call \<times> nat \<times> nap) \<Rightarrow> nat
     \<Rightarrow> bool option run option" where
  "monitor_pipeline loads env fuel = monitor_loop loads env fuel 1 0 (- 1) []"

text \<open>The script's entry point.\<close>

definition main_monitor ::
  "(string \<Rightarrow> json option) \<Rightarrow> (nat \<Rightarrow> string call \<times> nat \<times> nap) \<Rightarrow> nat
     \<Rightarrow> unit outcome option" where
  "main_monitor loads env fuel =
     (case monitor_pipeline loads env fuel of
        None \<Rightarrow> None
      | Some r \<Rightarrow>
          (case outcome r of
             Returned result \<Rightarrow>
               if result = Some True then Some (Sys_exit 0)
               else if result = Some False then Some (Sys_exit 1)
               else Some (Sys_exit 2)
           | Sys_exit n \<Rightarrow> Some (Sys_exit n)
           | Uncaught e \<Rightarrow> Some (Uncaught e)))"

section \<open>submit_pipeline_complete.py\<close>

text \<open>
  \<^verbatim>\<open>monitor_pipeline\<close> reads the phase, the progress and the message of the workflow with
  three \<^verbatim>\<open>os.popen\<close> calls, assigns \<^verbatim>\<open>current_time\<close>, and then counts the PyTorchJobs with a
  fourth. A pass either fails in one of the first three reads, before \<^verbatim>\<open>current_time\<close> is
  assigned, or it has the three stripped strings and the fourth call. \<^verbatim>\<open>int\<close> on a string
  is a parameter: \<open>to_int s = None\<close> when it raises \<open>ValueError\<close>.
\<close>

datatype complete_event =
    Reads_raise exn
  | Polled string string string "string call"

text \<open>The local variables: \<open>time_bound\<close> tells whether \<^verbatim>\<open>current_time\<close> has been assigned.\<close>

record complete_state =
  monitoring_duration :: nat
  last_status :: "string option"
  last_progress :: "string option"
  time_bound :: bool

definition max_monitoring_time :: nat where
  "max_monitoring_time = 4 * 60 * 60"

definition complete_pass ::
  "(string \<Rightarrow> int option) \<Rightarrow> complete_event \<Rightarrow> complete_state \<Rightarrow> (complete_state, bool) step" where
  "complete_pass to_int ev st =
     (case ev of
        Reads_raise e \<Rightarrow> Raise st e
      | Polled status progress message jobs \<Rightarrow>
          (let changed = (last_status st \<noteq> Some status \<or> last_progress st \<noteq> Some progress) in
           if changed \<and> (status = ''Succeeded'' \<or> status = ''Failed'' \<or> status = ''Error'')
           then Return (status = ''Succeeded'')
           else
             (let st' = (if changed
                         then st\<lparr>last_status := Some status, last_progress := Some progress,
                                 time_bound := True\<rparr>
                         else st\<lparr>time_bound := True\<rparr>)
              in case jobs of
                   Raises e \<Rightarrow> Raise st' e
                 | Completed out \<Rightarrow>
                     if strip out \<noteq> [] then
                       (case to_int (strip out) of
                          None \<Rightarrow> Raise st' ValueError
                        | Some n \<Rightarrow> Continue st')
                     else Continue st')))"

text \<open>The loop counts its own sleeps in \<^verbatim>\<open>monitoring_duration\<close>. The handler of
  \<^verbatim>\<open>except Exception\<close> formats \<^verbatim>\<open>current_time\<close> before it sleeps, which raises
  \<open>UnboundLocalError\<close> when the variable has not been assigned; the handler of
  \<^verbatim>\<open>except KeyboardInterrupt\<close> returns \<^verbatim>\<open>False\<close>.\<close>

fun monitor_loop_complete ::
  "(string \<Rightarrow> int option) \<Rightarrow> (nat \<Rightarrow> complete_event \<times> nat \<times> nap) \<Rightarrow> nat \<Rightarrow> nat \<Rightarrow> nat
     \<Rightarrow> complete_state \<Rightarrow> nat list \<Rightarrow> bool run option" where
  "monitor_loop_complete to_int env 0 i now st sl = None"
| "monitor_loop_complete to_int env (Suc fuel) i now st sl =
     (if monitoring_duration st < max_monitoring_time then
        (case env i of (ev, latency, nap) \<Rightarrow>
           (case complete_pass to_int ev st of
              Return v \<Rightarrow> Some \<lparr>outcome = Returned v, slept = sl, clock = now + latency\<rparr>
            | Continue st' \<Rightarrow>
                (case nap of
                   Woken t \<Rightarrow>
                     Some \<lparr>outcome = Returned False, slept = sl @ [30],
                           clock = now + latency + min t 30\<rparr>
                 | Rested \<Rightarrow>
                     monitor_loop_complete to_int env fuel (i + 1) (now + latency + 30)
                       (st'\<lparr>monitoring_duration := monitoring_duration st' + 30\<rparr>) (sl @ [30]))
            | Raise st' e \<Rightarrow>
                if e = KeyboardInterrupt
                then Some \<lparr>outcome = Returned False, slept = sl, clock = now + latency\<rparr>
                else if \<not> time_bound st'
                then Some \<lparr>outcome = Uncaught UnboundLocalError, slept = sl,
                           clock = now + latency\<rparr>
                else
                  (case nap of
                     Woken t \<Rightarrow>
                       Some \<lparr>outcome = Uncaught KeyboardInterrupt, slept = sl @ [30],
                             clock = now + latency + min t 30\<rparr>
                   | Rested \<Rightarrow>
                       monitor_loop_complete to_int env fuel (i + 1) (now + latency + 30)
                         (st'\<lparr>monitoring_duration := monitoring_duration st' + 30\<rparr>)
                         (sl @ [30]))))
      else Some \<lparr>outcome = Returned False, slept = sl, clock = now\<rparr>)"


text \<open>Before the loop the function looks the workflow up; the call is outside the
  \<^verbatim>\<open>try\<close>. With no workflow name it returns \<^verbatim>\<open>False\<close> at once.\<close>

definition monitor_pipeline_complete ::
  "(string \<Rightarrow> int option) \<Rightarrow> string call \<Rightarrow> (nat \<Rightarrow> complete_event \<times> nat \<times> nap) \<Rightarrow> nat
     \<Rightarrow> bool run option" where
  "monitor_pipeline_complete to_int lookup env fuel =
     (case lookup of
        Raises e \<Rightarrow> Some \<lparr>outcome = Uncaught e, slept = [], clock = 0\<rparr>
      | Completed out \<Rightarrow>
          if strip out = [] then Some \<lparr>outcome = Returned False, slept = [], clock = 0\<rparr>
          else monitor_loop_complete to_int env fuel 1 0
                 \<lparr>monitoring_duration = 0, last_status = None, last_progress = None,
                  time_bound = False\<rparr> [])"

text \<open>
  What \<^verbatim>\<open>submit_pipeline\<close> of this script gives back: a bare \<^verbatim>\<open>False\<close> when the token, the
  route or the pipeline is not found, the pair \<^verbatim>\<open>(False, None)\<close> when the submission
  fails, and \<^verbatim>\<open>(True, run_id)\<close> when it succeeds.
\<close>

datatype submission =
    Bare_false
  | Pair bool json

text \<open>\<^verbatim>\<open>main\<close> after the call of \<^verbatim>\<open>submit_pipeline\<close>, whose result it unpacks into
  \<^verbatim>\<open>success, run_id\<close>: unpacking the bare \<^verbatim>\<open>False\<close> raises \<open>TypeError\<close>. The result of the
  monitoring only chooses the line that is printed.\<close>

definition main_complete ::
  "submission \<Rightarrow> bool \<Rightarrow> (string \<Rightarrow> int option) \<Rightarrow> string call
     \<Rightarrow> (nat \<Rightarrow> complete_event \<times> nat \<times> nap) \<Rightarrow> nat \<Rightarrow> unit outcome option" where
  "main_complete submitted monitor_flag to_int lookup env fuel =
     (case submitted of
        Bare_false \<Rightarrow> Some (Uncaught TypeError)
      | Pair success run_id \<Rightarrow>
          if \<not> success then Some (Sys_exit 1)
          else if monitor_flag then
            (case monitor_pipeline_complete to_int lookup env fuel of
               None \<Rightarrow> None
             | Some r \<Rightarrow>
                 (case outcome r of
                    Returned success \<Rightarrow> Some (Returned ())
                  | Sys_exit n \<Rightarrow> Some (Sys_exit n)
                  | Uncaught e \<Rightarrow> Some (Uncaught e)))
          else Some (Returned ()))"

section \<open>Interrupts and example runs of the polling loops\<close>

text \<open>A pass of \<^verbatim>\<open>monitor_pipeline\<close> of \<^verbatim>\<open>submit_pipeline_complete.py\<close> in which a
  \<open>KeyboardInterrupt\<close> comes: in one of the three reads or in the count of the jobs.\<close>

definition interrupts :: "complete_event \<Rightarrow> bool" where
  "interrupts ev =
     (case ev of
        Reads_raise e \<Rightarrow> e = KeyboardInterrupt
      | Polled status progress message jobs \<Rightarrow> jobs = Raises KeyboardInterrupt)"








definition interrupted_retry :: "nat \<Rightarrow> string call \<times> nat \<times> nap" where
  "interrupted_retry i = (Raises (OtherError ''[Errno 24] Too many open files''), 0, Woken 5)"


definition failed_workflow_polls :: "nat \<Rightarrow> complete_event \<times> nat \<times> nap" where
  "failed_workflow_polls i = (Polled ''Failed'' ''2/7'' ''pod failed'' (Completed ''0''), 5, Rested)"

text \<open>A workflow of two nodes that has succeeded; \<^verbatim>\<open>kubectl\<close> output that parses to it;
  and a world in which the token, the route, an InstructLab pipeline and the submitted run
  are found and every poll shows the run \<^verbatim>\<open>Succeeded\<close> with that workflow as its
  manifest.\<close>

definition finished_workflow :: json where
  "finished_workflow =
     JDict [(''metadata'', JDict [(''creationTimestamp'', JStr ''2025-01-01T00:00:00Z'')]),
            (''status'',
               JDict [(''phase'', JStr ''Succeeded''),
                      (''finishedAt'', JStr ''2025-01-01T06:00:00Z''),
                      (''nodes'', JDict (map (node_in_phase ''Succeeded'') [0..<2]))])]"

definition finished_polls :: "nat \<Rightarrow> string call \<times> nat \<times> nap" where
  "finished_polls i = (Completed ''{workflow}'', 2, Rested)"

definition succeeded_run :: json where
  "succeeded_run =
     JDict [(''run'',
              JDict [(''id'', JStr ''run-1''), (''status'', JStr ''Succeeded''),
                     (''pipeline_runtime'',
                        JDict [(''workflow_manifest'', JStr ''{workflow}'')])])]"

definition succeeded_world :: v1_world where
  "succeeded_world =
     \<lparr>token_call = Completed ''sha256~abc'',
      route_call = Completed ''ds-pipeline-dspa.apps.example.org'',
      pipelines_call =
        Completed (JDict [(''pipelines'',
                           JList [JDict [(''id'', JStr ''7c1d-ilab''),
                                         (''display_name'', JStr ''instructlab'')]])]),
      submit_call =
        Completed (JDict [(''run'', JDict [(''id'', JStr ''run-1''),
                                           (''name'', JStr ''InstructLab-Production-1'')])]),
      json_loads = (\<lambda>s. Some finished_workflow),
      polls = (\<lambda>i. (Completed succeeded_run, 3, Rested))\<rparr>"

section \<open>fix_granite_image.py\<close>

text \<open>
  The script builds its command lines from fixed texts. A command is kept by its parts:
  \<^verbatim>\<open>oc get <kind> <name> -n <namespace> -o <output>\<close>,
  \<^verbatim>\<open>oc delete pod <pod> -n <namespace> --ignore-not-found=true\<close>, \<^verbatim>\<open>oc apply -f <file>\<close> and
  \<^verbatim>\<open>oc patch workflow <name> -n <namespace> --type='json' -p='[...]'\<close> with the operations of
  the JSON patch, each an operation, a path and a value.
\<close>

datatype oc_command =
    Oc_get string string string string
  | Oc_delete_pod string string
  | Oc_apply string
  | Oc_patch_workflow string string "(string \<times> string \<times> json) list"

text \<open>What a function of the script does to the outside, in order.\<close>

datatype effect =
    Ran oc_command
  | Wrote string
  | Slept nat


text \<open>\<^verbatim>\<open>run_oc_command\<close>; \<open>oc\<close> tells what running each command does.\<close>

definition run_oc_command ::
  "(oc_command \<Rightarrow> string call) \<Rightarrow> oc_command \<Rightarrow> effect list \<times> (exn + string option)" where
  "run_oc_command oc cmd =
     ([Ran cmd],
      case oc cmd of
        Completed out \<Rightarrow> Inr (Some (strip out))
      | Raises (CalledProcessError err) \<Rightarrow> Inr None
      | Raises e \<Rightarrow> Inl e)"

definition get_workflow_yaml ::
  "(oc_command \<Rightarrow> string call) \<Rightarrow> string \<Rightarrow> string \<Rightarrow> effect list \<times> (exn + string option)" where
  "get_workflow_yaml oc wname ns = run_oc_command oc (Oc_get ''workflow'' wname ns ''yaml'')"









definition commands :: "effect list \<Rightarrow> oc_command list" where
  "commands es = concat (map (\<lambda>e. case e of Ran c \<Rightarrow> [c] | _ \<Rightarrow> []) es)"





section \<open>Properties of the Python operations\<close>

lemma bind_exn_Inr: "bind_exn m f = Inr y \<longleftrightarrow> (\<exists>x. m = Inr x \<and> f x = Inr y)"
  by (cases m) (simp_all add: bind_exn_def)


section \<open>Properties of the double-precision arithmetic\<close>












lemma fl_zero [simp]: "fl 0 = 0"
  by (simp add: fl_def)






section \<open>Properties of submit_pipeline.py\<close>

lemma map_of_dict_set: "map_of (dict_set d k v) = (map_of d)(k \<mapsto> v)"
  by (induction d) (auto simp: fun_eq_iff)

lemma keys_dict_set: "k \<in> fst ` set d \<Longrightarrow> map fst (dict_set d k v) = map fst d"
  by (induction d) force+

lemma keys_dict_update:
  "fst ` set us \<subseteq> fst ` set d \<Longrightarrow> map fst (dict_update d us) = map fst d"
proof (induction us arbitrary: d)
  case Nil
  then show ?case by simp
next
  case (Cons u us)
  obtain k v where u: "u = (k, v)" by (cases u)
  from Cons.prems u have k: "k \<in> fst ` set d" by auto
  have eq: "map fst (dict_set d k v) = map fst d" using k by (rule keys_dict_set)
  have "fst ` set (dict_set d k v) = fst ` set d"
    using eq by (metis list.set_map)
  with Cons.prems have "fst ` set us \<subseteq> fst ` set (dict_set d k v)" by auto
  then show ?case using Cons.IH[of "dict_set d k v"] u eq by simp
qed

text \<open>After \<^verbatim>\<open>update\<close> a key holds the last value the update gives it, or its old value.\<close>

lemma map_of_dict_update:
  "map_of (dict_update d us) k =
     (case map_of (rev us) k of Some v \<Rightarrow> Some v | None \<Rightarrow> map_of d k)"
proof (induction us arbitrary: d)
  case Nil
  then show ?case by simp
next
  case (Cons u us)
  obtain k' v' where u: "u = (k', v')" by (cases u)
  show ?case
    unfolding u by (simp add: Cons.IH map_of_dict_set map_add_def split: option.splits)
qed

lemma custom_keys:
  "fst ` set (main_custom_params args)
     \<subseteq> {''sdg_repo_url'', ''sdg_base_model'', ''output_model_name''}"
  by (auto simp: main_custom_params_def)

lemma default_keys:
  "{''sdg_repo_url'', ''sdg_base_model'', ''output_model_name''} \<subseteq> fst ` set default_params"
  by (simp add: default_params_def)

lemma run_parameters_main:
  "map_of (run_parameters (main_custom_arg args)) k =
     (case map_of (rev (main_custom_params args)) k of
        Some v \<Rightarrow> Some v | None \<Rightarrow> map_of default_params k)"
  by (simp add: run_parameters_def main_custom_arg_def map_of_dict_update)

lemma run_parameters_keys:
  "map fst (run_parameters (main_custom_arg args)) = map fst default_params"
proof -
  have "fst ` set (main_custom_params args) \<subseteq> fst ` set default_params"
    using custom_keys[of args] default_keys by (rule subset_trans)
  then have "map fst (dict_update default_params (main_custom_params args))
      = map fst default_params"
    by (rule keys_dict_update)
  then show ?thesis by (simp add: run_parameters_def main_custom_arg_def)
qed

lemma run_parameters_other:
  assumes "k \<notin> {''sdg_repo_url'', ''sdg_base_model'', ''output_model_name''}"
  shows "map_of (run_parameters (main_custom_arg args)) k = map_of default_params k"
proof -
  from assms have "k \<notin> fst ` set (rev (main_custom_params args))"
    using custom_keys[of args] by auto
  then have "map_of (rev (main_custom_params args)) k = None"
    by (simp add: map_of_eq_None_iff)
  then show ?thesis by (simp add: run_parameters_main)
qed

lemma run_parameters_overridden:
  "map_of (run_parameters (main_custom_arg args)) ''sdg_repo_url'' =
     (if given (repo_url args) then Some (JStr (the (repo_url args)))
      else map_of default_params ''sdg_repo_url'')"
  "map_of (run_parameters (main_custom_arg args)) ''sdg_base_model'' =
     (if given (base_model args) then Some (JStr (the (base_model args)))
      else map_of default_params ''sdg_base_model'')"
  "map_of (run_parameters (main_custom_arg args)) ''output_model_name'' =
     (if given (output_model_name args) then Some (JStr (the (output_model_name args)))
      else map_of default_params ''output_model_name'')"
  by (simp_all add: run_parameters_main main_custom_params_def)

text \<open>
  C3. In \<^verbatim>\<open>submit_pipeline.py\<close> the payload's \<^verbatim>\<open>runtime_config\<close> carries the hardcoded
  default table with the command-line overrides applied. Whatever overrides are given, the
  table keeps its keys and their order, every key other than \<^verbatim>\<open>sdg_repo_url\<close>,
  \<^verbatim>\<open>sdg_base_model\<close> and \<^verbatim>\<open>output_model_name\<close> keeps its default value, and each of
  these three holds the value given on the command line, or its default when none was given.
\<close>

theorem submit_pipeline_overrides_frame:
  assumes "k \<notin> {''sdg_repo_url'', ''sdg_base_model'', ''output_model_name''}"
  shows "\<exists>ps. runtime_parameters (payload pipeline_id version_id (main_custom_arg args)) = Some ps
     \<and> map fst ps = map fst default_params
     \<and> map_of ps k = map_of default_params k
     \<and> map_of ps ''sdg_repo_url'' =
         (if given (repo_url args) then Some (JStr (the (repo_url args)))
          else map_of default_params ''sdg_repo_url'')
     \<and> map_of ps ''sdg_base_model'' =
         (if given (base_model args) then Some (JStr (the (base_model args)))
          else map_of default_params ''sdg_base_model'')
     \<and> map_of ps ''output_model_name'' =
         (if given (output_model_name args) then Some (JStr (the (output_model_name args)))
          else map_of default_params ''output_model_name'')"
proof -
  have "runtime_parameters (payload pipeline_id version_id (main_custom_arg args))
      = Some (run_parameters (main_custom_arg args))"
    by (simp add: runtime_parameters_def payload_def json_at_def)
  then show ?thesis
    using run_parameters_keys[of args] run_parameters_other[OF assms, of args]
      run_parameters_overridden[of args]
    by simp
qed

theorem submit_pipeline_overrides_frame_witness:
  "\<exists>ps. runtime_parameters (payload ''p-1'' ''v-1''
        (main_custom_arg \<lparr>namespace = ''petloan-instructlab'', route = False,
           repo_url = Some ''https://example.org/taxonomy.git'', base_model = None,
           output_model_name = Some ''my-model''\<rparr>)) = Some ps
     \<and> map_of ps ''sdg_scale_factor'' = Some (JInt 30)
     \<and> map_of ps ''sdg_repo_url'' = Some (JStr ''https://example.org/taxonomy.git'')
     \<and> map_of ps ''sdg_base_model''
          = Some (JStr ''oci://registry.redhat.io/rhoai/granite-7b-starter'')
     \<and> map_of ps ''output_model_name'' = Some (JStr ''my-model'')"
proof -
  have d: "map_of default_params ''sdg_scale_factor'' = Some (JInt 30)"
    "map_of default_params ''sdg_base_model''
       = Some (JStr ''oci://registry.redhat.io/rhoai/granite-7b-starter'')"
    by (simp_all add: default_params_def)
  have k: "''sdg_scale_factor'' \<notin> {''sdg_repo_url'', ''sdg_base_model'', ''output_model_name''}"
    by simp
  from submit_pipeline_overrides_frame[OF k, of "''p-1''" "''v-1''"
        "\<lparr>namespace = ''petloan-instructlab'', route = False,
           repo_url = Some ''https://example.org/taxonomy.git'', base_model = None,
           output_model_name = Some ''my-model''\<rparr>"]
  obtain ps where "runtime_parameters (payload ''p-1'' ''v-1''
        (main_custom_arg \<lparr>namespace = ''petloan-instructlab'', route = False,
           repo_url = Some ''https://example.org/taxonomy.git'', base_model = None,
           output_model_name = Some ''my-model''\<rparr>)) = Some ps"
    and "map_of ps ''sdg_scale_factor'' = Some (JInt 30)"
    and "map_of ps ''sdg_repo_url'' = Some (JStr ''https://example.org/taxonomy.git'')"
    and "map_of ps ''sdg_base_model''
          = Some (JStr ''oci://registry.redhat.io/rhoai/granite-7b-starter'')"
    and "map_of ps ''output_model_name'' = Some (JStr ''my-model'')"
    by (auto simp: d given_def)
  then show ?thesis by blast
qed

section \<open>Properties of get_openshift_token\<close>

lemma py_getitem_Inr: "py_getitem obj k = Inr v \<longleftrightarrow> json_at obj k = Some v"
  by (auto simp: py_getitem_def json_at_def split: json.splits option.splits)

lemma py_get_dict: "py_get obj k dflt = Inr v \<longleftrightarrow>
    (\<exists>d. obj = JDict d \<and> v = (case json_at obj k of Some x \<Rightarrow> x | None \<Rightarrow> dflt))"
  by (auto simp: py_get_def json_at_def split: json.splits option.splits)

lemma py_contains_dict:
  "py_contains k (JDict d) = Inr (json_at (JDict d) k \<noteq> None)"
  by (simp add: py_contains_def json_at_def map_of_eq_None_iff image_iff)

lemma find_context_user_sound:
  "find_context_user cur cs = Inr (Some un) \<Longrightarrow>
     \<exists>c\<in>set cs. entry_named c cur \<and> context_user c = Some un"
proof (induction cs)
  case Nil
  then show ?case by simp
next
  case (Cons c cs)
  from Cons.prems obtain name where n: "json_at c ''name'' = Some name"
    by (auto simp: bind_exn_Inr py_getitem_Inr)
  show ?case
  proof (cases "py_eq name cur")
    case True
    with Cons.prems n have "context_user c = Some un"
      by (auto simp: bind_exn_Inr py_getitem_Inr context_user_def)
    moreover have "entry_named c cur" using n True by (simp add: entry_named_def)
    ultimately show ?thesis by auto
  next
    case False
    with Cons.prems n have "find_context_user cur cs = Inr (Some un)"
      by (auto simp: bind_exn_Inr py_getitem_Inr)
    from Cons.IH[OF this] show ?thesis by auto
  qed
qed

lemma find_user_token_sound:
  "find_user_token un us = Inr (Some t) \<Longrightarrow>
     \<exists>u\<in>set us. entry_named u un \<and> user_token u = Some t"
proof (induction us)
  case Nil
  then show ?case by simp
next
  case (Cons u us)
  from Cons.prems obtain name where n: "json_at u ''name'' = Some name"
    by (auto simp: bind_exn_Inr py_getitem_Inr)
  show ?case
  proof (cases "py_eq name un")
    case False
    with Cons.prems n have "find_user_token un us = Inr (Some t)"
      by (auto simp: bind_exn_Inr py_getitem_Inr)
    from Cons.IH[OF this] show ?thesis by auto
  next
    case True
    with Cons.prems n obtain uu has where uu: "json_at u ''user'' = Some uu"
      and has: "py_contains ''token'' uu = Inr has"
      and r: "(if has then bind_exn (py_getitem uu ''token'') (\<lambda>token. Inr (Some token))
               else find_user_token un us) = Inr (Some t)"
      by (auto simp: bind_exn_Inr py_getitem_Inr)
    show ?thesis
    proof (cases has)
      case True
      with r have "json_at uu ''token'' = Some t" by (auto simp: bind_exn_Inr py_getitem_Inr)
      then have "user_token u = Some t" using uu by (simp add: user_token_def)
      moreover have "entry_named u un" using n \<open>py_eq name un\<close> by (simp add: entry_named_def)
      ultimately show ?thesis by auto
    next
      case False
      with r have "find_user_token un us = Inr (Some t)" by simp
      from Cons.IH[OF this] show ?thesis by auto
    qed
  qed
qed

lemma find_context_user_wf:
  "list_all well_formed_context cs \<Longrightarrow>
     find_context_user cur cs =
       Inr (case find (\<lambda>c. entry_named c cur) cs of None \<Rightarrow> None | Some c \<Rightarrow> context_user c)"
proof (induction cs)
  case Nil
  then show ?case by simp
next
  case (Cons c cs)
  from Cons.prems obtain name cc un where n: "json_at c ''name'' = Some name"
    and cc: "json_at c ''context'' = Some cc" and un: "json_at cc ''user'' = Some un"
    by (auto simp: well_formed_context_def context_user_def split: option.splits)
  have g: "py_getitem c ''name'' = Inr name" "py_getitem c ''context'' = Inr cc"
    "py_getitem cc ''user'' = Inr un"
    using n cc un by (simp_all add: py_getitem_Inr)
  from Cons have IH: "find_context_user cur cs =
       Inr (case find (\<lambda>c. entry_named c cur) cs of None \<Rightarrow> None | Some c \<Rightarrow> context_user c)"
    by simp
  show ?case
    by (simp add: g bind_exn_def IH entry_named_def n context_user_def cc un)
qed

lemma find_user_token_wf:
  "list_all well_formed_user us \<Longrightarrow>
     find_user_token un us =
       Inr (case find (\<lambda>u. entry_named u un \<and> user_token u \<noteq> None) us of
              None \<Rightarrow> None | Some u \<Rightarrow> user_token u)"
proof (induction us)
  case Nil
  then show ?case by simp
next
  case (Cons u us)
  from Cons.prems obtain name d where n: "json_at u ''name'' = Some name"
    and uu: "json_at u ''user'' = Some (JDict d)"
    by (auto simp: well_formed_user_def split: option.splits json.splits)
  have g: "py_getitem u ''name'' = Inr name" "py_getitem u ''user'' = Inr (JDict d)"
    using n uu by (simp_all add: py_getitem_Inr)
  from Cons have IH: "find_user_token un us =
       Inr (case find (\<lambda>u. entry_named u un \<and> user_token u \<noteq> None) us of
              None \<Rightarrow> None | Some u \<Rightarrow> user_token u)"
    by simp
  show ?case
  proof (cases "json_at (JDict d) ''token''")
    case None
    then show ?thesis
      by (simp add: g bind_exn_def IH entry_named_def n user_token_def uu py_contains_dict)
  next
    case (Some t)
    then have "py_getitem (JDict d) ''token'' = Inr t" by (simp add: py_getitem_Inr)
    then show ?thesis using Some
      by (simp add: g bind_exn_def IH entry_named_def n user_token_def uu py_contains_dict)
  qed
qed

lemma py_iter_entries:
  assumes "py_iter cs = Inr xs" "c \<in> set xs" "json_at c k = Some v"
  shows "cs = JList xs"
  using assms by (cases cs) (auto simp: py_iter_def json_at_def)

lemma config_list_get:
  assumes "py_get config k (JList []) = Inr (JList xs)"
  shows "config_list config k = xs"
  using assms by (auto simp: py_get_dict config_list_def split: option.splits)

lemma token_sound:
  assumes "token_of_config config = Inr t" "t \<noteq> JNull"
  shows "\<exists>cur c un u. json_at config ''current-context'' = Some cur \<and> truthy cur
           \<and> c \<in> set (config_list config ''contexts'') \<and> entry_named c cur
           \<and> context_user c = Some un
           \<and> u \<in> set (config_list config ''users'') \<and> entry_named u un
           \<and> user_token u = Some t"
proof -
  from assms obtain cur where cur: "py_get config ''current-context'' JNull = Inr cur"
    and tr: "truthy cur"
    by (auto simp: token_of_config_def bind_exn_Inr split: if_splits)
  from cur tr have jc: "json_at config ''current-context'' = Some cur"
    by (auto simp: py_get_dict split: option.splits)
  from assms cur tr obtain cs contexts found where
    cs: "py_get config ''contexts'' (JList []) = Inr cs"
    and it: "py_iter cs = Inr contexts"
    and fc: "find_context_user cur contexts = Inr found"
    and rest: "(case found of None \<Rightarrow> Inr JNull
                | Some user_name \<Rightarrow>
                    bind_exn (py_get config ''users'' (JList [])) (\<lambda>us.
                    bind_exn (py_iter us) (\<lambda>users.
                    bind_exn (find_user_token user_name users) (\<lambda>t.
                      case t of None \<Rightarrow> Inr JNull | Some token \<Rightarrow> Inr token)))) = Inr t"
    by (auto simp: token_of_config_def bind_exn_Inr)
  from rest assms(2) obtain un where found: "found = Some un" by (cases found) auto
  from rest found assms(2) obtain us users where
    us: "py_get config ''users'' (JList []) = Inr us"
    and itu: "py_iter us = Inr users"
    and ft: "find_user_token un users = Inr (Some t)"
    by (auto simp: bind_exn_Inr split: option.splits)
  from find_context_user_sound[OF fc[unfolded found]] obtain c where
    c: "c \<in> set contexts" "entry_named c cur" "context_user c = Some un" by auto
  from c(2) obtain m where "json_at c ''name'' = Some m"
    by (auto simp: entry_named_def split: option.splits)
  from py_iter_entries[OF it c(1) this] cs have "config_list config ''contexts'' = contexts"
    by (simp add: config_list_get)
  moreover
  from find_user_token_sound[OF ft] obtain u where
    u: "u \<in> set users" "entry_named u un" "user_token u = Some t" by auto
  from u(2) obtain m' where "json_at u ''name'' = Some m'"
    by (auto simp: entry_named_def split: option.splits)
  from py_iter_entries[OF itu u(1) this] us have "config_list config ''users'' = users"
    by (simp add: config_list_get)
  ultimately show ?thesis using jc tr c u by blast
qed

lemma listed_get:
  assumes "config = JDict d" "listed config k"
  shows "bind_exn (py_get config k (JList [])) py_iter = Inr (config_list config k)"
  using assms
  by (auto simp: listed_def py_get_def json_at_def config_list_def bind_exn_def py_iter_def
      split: option.splits json.splits)

lemma token_well_formed:
  assumes "well_formed_config config"
  shows "token_of_config config = Inr (first_token_by_reference config)"
proof -
  from assms obtain d where d: "config = JDict d"
    by (auto simp: well_formed_config_def split: json.splits)
  from assms have lc: "listed config ''contexts''" and lu: "listed config ''users''"
    and wc: "list_all well_formed_context (config_list config ''contexts'')"
    and wu: "list_all well_formed_user (config_list config ''users'')"
    by (simp_all add: well_formed_config_def)
  have gc: "py_get config ''current-context'' JNull
      = Inr (case json_at config ''current-context'' of Some x \<Rightarrow> x | None \<Rightarrow> JNull)"
    by (simp add: d py_get_def json_at_def)
  have ic: "\<And>f. bind_exn (py_get config ''contexts'' (JList [])) (\<lambda>cs. bind_exn (py_iter cs) f)
      = f (config_list config ''contexts'')"
    using listed_get[OF d lc] by (auto simp: bind_exn_def split: sum.splits)
  have iu: "\<And>f. bind_exn (py_get config ''users'' (JList [])) (\<lambda>us. bind_exn (py_iter us) f)
      = f (config_list config ''users'')"
    using listed_get[OF d lu] by (auto simp: bind_exn_def split: sum.splits)
  have "token_of_config config =
      bind_exn (Inr (case json_at config ''current-context'' of Some x \<Rightarrow> x | None \<Rightarrow> JNull))
        (\<lambda>current_context.
          if \<not> truthy current_context then Inr JNull
          else bind_exn (find_context_user current_context (config_list config ''contexts''))
                (\<lambda>found. case found of
                    None \<Rightarrow> Inr JNull
                  | Some user_name \<Rightarrow>
                      bind_exn (find_user_token user_name (config_list config ''users''))
                        (\<lambda>t. case t of None \<Rightarrow> Inr JNull | Some token \<Rightarrow> Inr token)))"
    by (simp only: token_of_config_def gc ic iu)
  also have "\<dots> = Inr (first_token_by_reference config)"
    by (simp add: find_context_user_wf[OF wc] find_user_token_wf[OF wu]
        first_token_by_reference_def bind_exn_def split: option.splits)
  finally show ?thesis .
qed

text \<open>
  C6, as amended. \<^verbatim>\<open>get_openshift_token\<close> returns \<^verbatim>\<open>None\<close> when the file cannot be read or
  parsed and when the loaded value has no truthy \<^verbatim>\<open>current-context\<close>. On a kubeconfig whose
  context and user entries have the keys that are subscripted, it returns the token of the
  first user entry that has both the name the current context refers to and a token, and
  \<^verbatim>\<open>None\<close> when the context, or such a user entry, is missing. On any input, a value other
  than \<^verbatim>\<open>None\<close> is the token of a user entry named by a context entry that carries the name
  of the current context; so a missing link of that chain, or an exception raised while the
  entries are traversed, gives \<^verbatim>\<open>None\<close>.
\<close>

theorem get_openshift_token_by_reference:
  "get_openshift_token Unreadable = JNull
   \<and> ((\<forall>cur. json_at config ''current-context'' = Some cur \<longrightarrow> \<not> truthy cur)
        \<longrightarrow> get_openshift_token (Loaded config) = JNull)
   \<and> (well_formed_config config
        \<longrightarrow> get_openshift_token (Loaded config) = first_token_by_reference config)
   \<and> (get_openshift_token (Loaded config) \<noteq> JNull \<longrightarrow>
        (\<exists>cur c un u. json_at config ''current-context'' = Some cur \<and> truthy cur
           \<and> c \<in> set (config_list config ''contexts'') \<and> entry_named c cur
           \<and> context_user c = Some un
           \<and> u \<in> set (config_list config ''users'') \<and> entry_named u un
           \<and> user_token u = Some (get_openshift_token (Loaded config))))"
proof (intro conjI impI)
  show "get_openshift_token Unreadable = JNull" by (simp add: get_openshift_token_def)
  show "get_openshift_token (Loaded config) = first_token_by_reference config"
    if "well_formed_config config"
    using token_well_formed[OF that] by (simp add: get_openshift_token_def)
next
  assume nz: "get_openshift_token (Loaded config) \<noteq> JNull"
  then obtain t where t: "token_of_config config = Inr t" "t \<noteq> JNull"
    "get_openshift_token (Loaded config) = t"
    by (auto simp: get_openshift_token_def split: sum.splits)
  from token_sound[OF t(1,2)] show "\<exists>cur c un u. json_at config ''current-context'' = Some cur
      \<and> truthy cur \<and> c \<in> set (config_list config ''contexts'') \<and> entry_named c cur
      \<and> context_user c = Some un \<and> u \<in> set (config_list config ''users'') \<and> entry_named u un
      \<and> user_token u = Some (get_openshift_token (Loaded config))"
    unfolding t(3) .
next
  assume no: "\<forall>cur. json_at config ''current-context'' = Some cur \<longrightarrow> \<not> truthy cur"
  show "get_openshift_token (Loaded config) = JNull"
  proof (rule ccontr)
    assume "get_openshift_token (Loaded config) \<noteq> JNull"
    then obtain t where t: "token_of_config config = Inr t" "t \<noteq> JNull"
      by (auto simp: get_openshift_token_def split: sum.splits)
    from token_sound[OF t] no show False by blast
  qed
qed

lemma example_kubeconfig_well_formed: "well_formed_config example_kubeconfig"
  by (simp add: well_formed_config_def example_kubeconfig_def listed_def json_at_def
      config_list_def well_formed_context_def well_formed_user_def context_user_def
      kube_entry_context_def)

lemma example_kubeconfig_token:
  "first_token_by_reference example_kubeconfig = JStr ''sha256~alice''"
  by (simp add: first_token_by_reference_def example_kubeconfig_def json_at_def
      config_list_def entry_named_def context_user_def user_token_def kube_entry_context_def)

theorem get_openshift_token_by_reference_witness:
  "well_formed_config example_kubeconfig
   \<and> get_openshift_token (Loaded example_kubeconfig) = JStr ''sha256~alice''"
  using get_openshift_token_by_reference[of example_kubeconfig]
    example_kubeconfig_well_formed example_kubeconfig_token
  by simp

text \<open>
  C6 as stated fails on two files. With two user entries of the referenced name, the first
  without a token, the function goes on to the second and returns its token. With a context
  entry without a name in front of the current one, the subscript raises and the function
  returns \<^verbatim>\<open>None\<close> although the chain from the current context to a token exists.
\<close>

theorem get_openshift_token_counterexample:
  "get_openshift_token (Loaded duplicate_user_kubeconfig) = JStr ''sha256~alice''
   \<and> token_by_reference duplicate_user_kubeconfig = JNull
   \<and> get_openshift_token (Loaded nameless_context_kubeconfig) = JNull
   \<and> token_by_reference nameless_context_kubeconfig = JStr ''sha256~alice''"
  by (simp add: get_openshift_token_def token_of_config_def duplicate_user_kubeconfig_def
      nameless_context_kubeconfig_def kube_entry_context_def token_by_reference_def
      py_get_def py_getitem_def py_iter_def py_contains_def bind_exn_def json_at_def
      config_list_def entry_named_def context_user_def user_token_def)

section \<open>Properties of the helpers of the v1beta1 scripts\<close>

lemma get_pipeline_info_first:
  assumes "map_of d ''pipelines'' = Some (JList (p # rest))"
    "find_instructlab (p # rest) = Inr None"
    "json_at p ''display_name'' = Some dn" "json_at p ''id'' = Some i"
  shows "get_pipeline_info (Completed (JDict d)) = ([Text_value ''Using pipeline: '' dn], Returned i)"
proof -
  have k: "''pipelines'' \<in> fst ` set d" using assms(1) by (metis domI dom_map_of_conv_image_fst)
  have g: "py_getitem p ''display_name'' = Inr dn" "py_getitem p ''id'' = Inr i"
    using assms(3,4) by (simp_all add: py_getitem_Inr)
  show ?thesis
    using assms(1,2) k
    by (simp add: get_pipeline_info_def pipeline_info_body_def py_contains_def py_getitem_def
        py_iter_def py_first_def announce_and_id_def g[unfolded py_getitem_def] bind_exn_def
        del: find_instructlab.simps)
qed

text \<open>
  C10. When no display name contains \<^verbatim>\<open>instructlab\<close>, \<^verbatim>\<open>get_pipeline_info\<close> is meant to
  return the id of the first pipeline (lemma \<open>get_pipeline_info_first\<close>: it does when the
  first pipeline has the keys \<^verbatim>\<open>display_name\<close> and \<^verbatim>\<open>id\<close>). The loop reads the display
  name with a default, but the fallback subscripts it: on a non-empty listing whose first
  pipeline has no \<^verbatim>\<open>display_name\<close> the \<open>KeyError\<close> is caught and the function returns
  \<^verbatim>\<open>None\<close>.
\<close>

theorem get_pipeline_info_without_display_name:
  "get_pipeline_info (Completed unrelated_pipelines)
     = ([Text_exn ''Error getting pipeline info: '' KeyError], Returned JNull)"
  by (simp add: get_pipeline_info_def pipeline_info_body_def unrelated_pipelines_def
      py_contains_def py_getitem_def py_iter_def py_get_def py_lower_def py_first_def
      announce_and_id_def bind_exn_def lower_def)

lemma helper_soft_failures:
  "run_kubectl cmd (Raises (CalledProcessError err))
     = ([Text (cross_mark @ '' Error running command: '' @ cmd), Text (''Error: '' @ err)],
        Inr None)"
  "snd (get_workflow_status loads wn (Raises (CalledProcessError err))) = Inr JNull"
  "oc c = Raises (CalledProcessError err) \<Longrightarrow> snd (run_oc_command oc c) = Inr None"
  "e \<noteq> KeyboardInterrupt \<Longrightarrow> get_pipeline_info (Raises e)
     = ([Text_exn ''Error getting pipeline info: '' e], Returned JNull)"
  "pipeline_info_body data = (ls, Inl e) \<Longrightarrow> get_pipeline_info (Completed data)
     = (ls @ [Text_exn ''Error getting pipeline info: '' e], Returned JNull)"
  by (simp_all add: run_kubectl_def get_workflow_status_def run_oc_command_def
      get_pipeline_info_def)

lemma submit_soft_failure:
  assumes "e \<noteq> KeyboardInterrupt" "e \<noteq> RequestError None"
  shows "snd (submit_pipeline_run (Raises e)) = Returned (JNull, JNull)"
    and "Text_exn ''Error submitting pipeline run: '' e \<in> set (fst (submit_pipeline_run (Raises e)))"
  using assms
  by (auto simp: submit_pipeline_run_def submit_run_handler_def split: exn.splits option.splits)

lemma hard_exits:
  "get_bearer_token (Raises (CalledProcessError err))
     = ([Text_exn ''Error getting token: '' (CalledProcessError err)], Sys_exit 1)"
  "get_dspa_route (Raises (CalledProcessError err))
     = ([Text_exn ''Error getting route: '' (CalledProcessError err)], Sys_exit 1)"
  by (simp_all add: get_bearer_token_def get_dspa_route_def)

lemma submit_steps_no_pipeline:
  assumes "token_call w = Completed tok" "route_call w = Completed rt"
    "snd (get_pipeline_info (pipelines_call w)) = Returned JNull"
  shows "submit_steps args w = Sys_exit 1"
  using assms by (simp add: submit_steps_def get_bearer_token_def get_dspa_route_def)

lemma submit_steps_no_run:
  assumes "token_call w = Completed tok" "route_call w = Completed rt"
    "snd (get_pipeline_info (pipelines_call w)) = Returned pid" "truthy pid"
    "snd (submit_pipeline_run (submit_call w)) = Returned (JNull, JNull)"
  shows "submit_steps args w = Sys_exit 1"
  using assms by (simp add: submit_steps_def get_bearer_token_def get_dspa_route_def)

lemma escaping_exceptions:
  assumes "\<And>err. e \<noteq> CalledProcessError err"
  shows "snd (run_kubectl cmd (Raises e)) = Inl e"
    "snd (get_bearer_token (Raises e)) = Uncaught e"
    "snd (get_dspa_route (Raises e)) = Uncaught e"
  using assms
  by (cases e; simp add: run_kubectl_def get_bearer_token_def get_dspa_route_def)+

lemma main_exit_no_pipeline:
  assumes "token_call w = Completed tok" "route_call w = Completed rt"
    "e \<noteq> KeyboardInterrupt" "pipelines_call w = Raises e"
  shows "main_production args w fuel = Some (Sys_exit 1)"
    and "main_nfs args w fuel = Some (Sys_exit 1)"
proof -
  have "snd (get_pipeline_info (pipelines_call w)) = Returned JNull"
    using assms(3,4) by (simp add: helper_soft_failures(4))
  with assms(1,2) have "submit_steps args w = Sys_exit 1" by (rule submit_steps_no_pipeline)
  then show "main_production args w fuel = Some (Sys_exit 1)"
    and "main_nfs args w fuel = Some (Sys_exit 1)"
    by (simp_all add: main_production_def main_nfs_def)
qed

lemma main_exit_no_run:
  assumes "token_call w = Completed tok" "route_call w = Completed rt"
    "snd (get_pipeline_info (pipelines_call w)) = Returned pid" "truthy pid"
    "e \<noteq> KeyboardInterrupt" "e \<noteq> RequestError None" "submit_call w = Raises e"
  shows "main_production args w fuel = Some (Sys_exit 1)"
    and "main_nfs args w fuel = Some (Sys_exit 1)"
proof -
  have "snd (submit_pipeline_run (submit_call w)) = Returned (JNull, JNull)"
    using assms(5,6,7) by (simp add: submit_soft_failure(1))
  with assms(1-4) have "submit_steps args w = Sys_exit 1" by (rule submit_steps_no_run)
  then show "main_production args w fuel = Some (Sys_exit 1)"
    and "main_nfs args w fuel = Some (Sys_exit 1)"
    by (simp_all add: main_production_def main_nfs_def)
qed

lemma main_exit_no_token:
  assumes "token_call w = Raises (CalledProcessError err)"
  shows "main_production args w fuel = Some (Sys_exit 1)"
    and "main_nfs args w fuel = Some (Sys_exit 1)"
  using assms
  by (simp_all add: main_production_def main_nfs_def submit_steps_def get_bearer_token_def)

lemma run_oc_command_escapes:
  assumes "\<And>err. e \<noteq> CalledProcessError err" "oc c = Raises e"
  shows "snd (run_oc_command oc c) = Inl e"
  using assms by (cases e; simp add: run_oc_command_def)

text \<open>
  C2, as amended. When its subprocess fails with \<open>CalledProcessError\<close>, \<^verbatim>\<open>run_kubectl\<close>
  prints two lines and returns \<^verbatim>\<open>None\<close> (so does \<^verbatim>\<open>get_workflow_status\<close>), and
  \<^verbatim>\<open>run_oc_command\<close> returns \<^verbatim>\<open>None\<close>. When its request fails with an exception \<open>e\<close>,
  \<^verbatim>\<open>get_pipeline_info\<close> prints it and returns \<^verbatim>\<open>None\<close>. When its request fails with an
  exception \<open>e'\<close> that carries a response or has no attribute \<^verbatim>\<open>response\<close>,
  \<^verbatim>\<open>submit_pipeline_run\<close> prints it and returns \<^verbatim>\<open>(None, None)\<close>. After either failure the
  entry points of the two v1beta1 scripts exit with status 1. \<^verbatim>\<open>get_bearer_token\<close> and
  \<^verbatim>\<open>get_dspa_route\<close> print the \<open>CalledProcessError\<close> and end the process themselves with
  \<^verbatim>\<open>sys.exit(1)\<close>. The four subprocess helpers catch \<open>CalledProcessError\<close> only: any other
  exception \<open>x\<close> of the subprocess escapes them.
\<close>

theorem failing_calls_soft_or_exit:
  assumes "e \<noteq> KeyboardInterrupt"
    "e' \<noteq> KeyboardInterrupt" "e' \<noteq> RequestError None"
    "oc c = Raises (CalledProcessError err)"
    "token_call w = Completed tok" "route_call w = Completed rt"
  shows "run_kubectl cmd (Raises (CalledProcessError err))
       = ([Text (cross_mark @ '' Error running command: '' @ cmd), Text (''Error: '' @ err)],
          Inr None)
     \<and> snd (get_workflow_status loads wn (Raises (CalledProcessError err))) = Inr JNull
     \<and> snd (run_oc_command oc c) = Inr None
     \<and> get_pipeline_info (Raises e)
       = ([Text_exn ''Error getting pipeline info: '' e], Returned JNull)
     \<and> snd (submit_pipeline_run (Raises e')) = Returned (JNull, JNull)
     \<and> Text_exn ''Error submitting pipeline run: '' e'
          \<in> set (fst (submit_pipeline_run (Raises e')))
     \<and> (pipelines_call w = Raises e \<longrightarrow>
          main_production args w fuel = Some (Sys_exit 1)
        \<and> main_nfs args w fuel = Some (Sys_exit 1))
     \<and> (snd (get_pipeline_info (pipelines_call w)) = Returned pid \<and> truthy pid
          \<and> submit_call w = Raises e' \<longrightarrow>
          main_production args w fuel = Some (Sys_exit 1)
        \<and> main_nfs args w fuel = Some (Sys_exit 1))
     \<and> get_bearer_token (Raises (CalledProcessError err))
       = ([Text_exn ''Error getting token: '' (CalledProcessError err)], Sys_exit 1)
     \<and> get_dspa_route (Raises (CalledProcessError err))
       = ([Text_exn ''Error getting route: '' (CalledProcessError err)], Sys_exit 1)
     \<and> main_production args (w\<lparr>token_call := Raises (CalledProcessError err)\<rparr>) fuel
       = Some (Sys_exit 1)
     \<and> main_nfs args (w\<lparr>token_call := Raises (CalledProcessError err)\<rparr>) fuel
       = Some (Sys_exit 1)
     \<and> ((\<forall>err. x \<noteq> CalledProcessError err) \<longrightarrow>
          snd (run_kubectl cmd (Raises x)) = Inl x
        \<and> snd (get_bearer_token (Raises x)) = Uncaught x
        \<and> snd (get_dspa_route (Raises x)) = Uncaught x
        \<and> (oc c' = Raises x \<longrightarrow> snd (run_oc_command oc c') = Inl x))"
proof (intro conjI impI)
  show "run_kubectl cmd (Raises (CalledProcessError err))
       = ([Text (cross_mark @ '' Error running command: '' @ cmd), Text (''Error: '' @ err)],
          Inr None)"
    by (rule helper_soft_failures)
  show "snd (get_workflow_status loads wn (Raises (CalledProcessError err))) = Inr JNull"
    by (rule helper_soft_failures)
  show "snd (run_oc_command oc c) = Inr None"
    using assms(4) by (rule helper_soft_failures)
  show "get_pipeline_info (Raises e)
       = ([Text_exn ''Error getting pipeline info: '' e], Returned JNull)"
    using assms(1) by (rule helper_soft_failures)
  show "snd (submit_pipeline_run (Raises e')) = Returned (JNull, JNull)"
    using assms(2,3) by (rule submit_soft_failure)
  show "Text_exn ''Error submitting pipeline run: '' e'
          \<in> set (fst (submit_pipeline_run (Raises e')))"
    using assms(2,3) by (rule submit_soft_failure)
  show "get_bearer_token (Raises (CalledProcessError err))
       = ([Text_exn ''Error getting token: '' (CalledProcessError err)], Sys_exit 1)"
    by (rule hard_exits)
  show "get_dspa_route (Raises (CalledProcessError err))
       = ([Text_exn ''Error getting route: '' (CalledProcessError err)], Sys_exit 1)"
    by (rule hard_exits)
  show "main_production args (w\<lparr>token_call := Raises (CalledProcessError err)\<rparr>) fuel
       = Some (Sys_exit 1)"
    by (rule main_exit_no_token) simp
  show "main_nfs args (w\<lparr>token_call := Raises (CalledProcessError err)\<rparr>) fuel
       = Some (Sys_exit 1)"
    by (rule main_exit_no_token) simp
next
  assume p: "pipelines_call w = Raises e"
  show "main_production args w fuel = Some (Sys_exit 1)"
    using assms(5,6,1) p by (rule main_exit_no_pipeline)
  show "main_nfs args w fuel = Some (Sys_exit 1)"
    using assms(5,6,1) p by (rule main_exit_no_pipeline)
next
  assume s: "snd (get_pipeline_info (pipelines_call w)) = Returned pid \<and> truthy pid
          \<and> submit_call w = Raises e'"
  show "main_production args w fuel = Some (Sys_exit 1)"
    using assms(5,6) s assms(2,3) by (intro main_exit_no_run(1)[of w tok rt pid e']) simp_all
  show "main_nfs args w fuel = Some (Sys_exit 1)"
    using assms(5,6) s assms(2,3) by (intro main_exit_no_run(2)[of w tok rt pid e']) simp_all
next
  assume x: "\<forall>err. x \<noteq> CalledProcessError err"
  then have x': "\<And>err. x \<noteq> CalledProcessError err" by simp
  show "snd (run_kubectl cmd (Raises x)) = Inl x" using x' by (rule escaping_exceptions)
  show "snd (get_bearer_token (Raises x)) = Uncaught x" using x' by (rule escaping_exceptions)
  show "snd (get_dspa_route (Raises x)) = Uncaught x" using x' by (rule escaping_exceptions)
  show "snd (run_oc_command oc c') = Inl x" if "oc c' = Raises x"
    using x' that by (rule run_oc_command_escapes)
qed

lemma rejected_world_pipeline:
  "snd (get_pipeline_info (pipelines_call rejected_world)) = Returned (JStr ''7c1d-ilab'')"
  by code_simp

theorem failing_calls_soft_or_exit_witness:
  "get_pipeline_info (Raises (RequestError None))
       = ([Text_exn ''Error getting pipeline info: '' (RequestError None)], Returned JNull)
   \<and> main_production default_args failed_world 1 = Some (Sys_exit 1)
   \<and> submit_pipeline_run (Raises (RequestError (Some ''Internal Server Error'')))
       = ([Text_exn ''Error submitting pipeline run: ''
             (RequestError (Some ''Internal Server Error'')),
           Text ''Response: Internal Server Error''],
          Returned (JNull, JNull))
   \<and> main_production default_args rejected_world 1 = Some (Sys_exit 1)
   \<and> main_nfs default_args rejected_world 1 = Some (Sys_exit 1)
   \<and> snd (get_bearer_token (Raises (OtherError ''[Errno 2] No such file or directory'')))
       = Uncaught (OtherError ''[Errno 2] No such file or directory'')"
proof -
  let ?refused = "RequestError None"
  let ?status500 = "RequestError (Some ''Internal Server Error'')"
  let ?missing = "OtherError ''[Errno 2] No such file or directory''"
  have h: "?refused \<noteq> KeyboardInterrupt" "?status500 \<noteq> KeyboardInterrupt"
    "?status500 \<noteq> RequestError None"
    "(\<lambda>c. Raises (CalledProcessError ''not found'')) (Oc_apply ''f'')
       = Raises (CalledProcessError ''not found'')"
    by simp_all
  have f: "token_call failed_world = Completed (''sha256~abc'' @ [CHR 0x0A])"
    "route_call failed_world = Completed ''ds-pipeline-dspa.apps.example.org''"
    "pipelines_call failed_world = Raises ?refused"
    by (simp_all add: failed_world_def)
  have r: "token_call rejected_world = Completed (''sha256~abc'' @ [CHR 0x0A])"
    "route_call rejected_world = Completed ''ds-pipeline-dspa.apps.example.org''"
    "submit_call rejected_world = Raises ?status500"
    by (simp_all add: rejected_world_def)
  have t: "truthy (JStr ''7c1d-ilab'')" by simp
  have m: "\<forall>err. ?missing \<noteq> CalledProcessError err" by simp
  have s: "submit_pipeline_run (Raises ?status500)
       = ([Text_exn ''Error submitting pipeline run: '' ?status500,
           Text ''Response: Internal Server Error''],
          Returned (JNull, JNull))"
    by (simp add: submit_pipeline_run_def submit_run_handler_def)
  note a = failing_calls_soft_or_exit[OF h f(1,2), where x = ?missing and args = default_args
      and fuel = 1]
  note b = failing_calls_soft_or_exit[OF h r(1,2), where x = ?missing and args = default_args
      and fuel = 1 and pid = "JStr ''7c1d-ilab''"]
  from a have a1: "get_pipeline_info (Raises ?refused)
       = ([Text_exn ''Error getting pipeline info: '' ?refused], Returned JNull)"
    by blast
  from a f(3) have a2: "main_production default_args failed_world 1 = Some (Sys_exit 1)"
    by blast
  from b rejected_world_pipeline t r(3)
  have b1: "main_production default_args rejected_world 1 = Some (Sys_exit 1)"
    and b2: "main_nfs default_args rejected_world 1 = Some (Sys_exit 1)"
    by blast+
  from a m have a3: "snd (get_bearer_token (Raises ?missing)) = Uncaught ?missing"
    by blast
  from a1 a2 s b1 b2 a3 show ?thesis by blast
qed

text \<open>
  C2 as stated fails: a failing \<^verbatim>\<open>oc whoami --show-token\<close> makes \<^verbatim>\<open>get_bearer_token\<close> print
  the error and terminate the process with status 1; nothing is returned to the caller.
\<close>

theorem get_bearer_token_counterexample:
  "snd (get_bearer_token (Raises (CalledProcessError ''error: You must be logged in'')))
     = Sys_exit 1
   \<and> fst (get_bearer_token (Raises (CalledProcessError ''error: You must be logged in'')))
     = [Text_exn ''Error getting token: '' (CalledProcessError ''error: You must be logged in'')]"
  by (simp add: get_bearer_token_def)

section \<open>Properties of analyze_workflow_progress\<close>













lemma nodes_in_phase_Nil [simp]: "nodes_in_phase phs [] = []"
  by (simp add: nodes_in_phase_def)








section \<open>Properties of the polling loops\<close>

subsection \<open>The passes\<close>






lemma nfs_pass_return: "nfs_pass loads ev ls = Return v \<Longrightarrow> v = None"
  by (auto simp: nfs_pass_def split: call.splits sum.splits observation.splits if_splits)


lemma complete_pass_not_interrupt:
  assumes "\<not> interrupts ev" "complete_pass to_int ev st = Raise s e"
  shows "e \<noteq> KeyboardInterrupt"
  using assms
  by (auto simp: complete_pass_def interrupts_def Let_def
      split: complete_event.splits call.splits if_splits option.splits)











lemma monitor_pass_raises:
  assumes "\<And>err. e \<noteq> CalledProcessError err"
  shows "monitor_pass loads (Raises e) it lp = Raise lp e"
  using assms
  by (cases e) (auto simp: monitor_pass_def get_workflow_status_def run_kubectl_def)

lemma monitor_pass_return:
  assumes "monitor_pass loads ev it lp = Return v"
  shows "v = Some True \<or> v = Some False"
    and "v = Some True \<Longrightarrow>
      \<exists>w info. snd (get_workflow_status loads workflow_name ev) = Inr w
        \<and> analyze_workflow_progress w = Inr (Some info)
        \<and> workflow_status info = JStr ''Succeeded'' \<and> failed_nodes info = 0"
    and "v = Some False \<Longrightarrow>
      \<exists>w info. snd (get_workflow_status loads workflow_name ev) = Inr w
        \<and> analyze_workflow_progress w = Inr info
        \<and> (case info of
              None \<Rightarrow> True
            | Some p \<Rightarrow> 0 < failed_nodes p \<or> workflow_status p = JStr ''Failed''
                        \<or> workflow_status p = JStr ''Error'')"
  using assms
  by (auto simp: monitor_pass_def Let_def print_status_update_def terminal_def
      split: sum.splits option.splits if_splits)

lemma production_pass_return:
  assumes "production_pass loads ev st = Return v"
  shows "v = Some True \<or> v = Some False"
    and "v = Some True \<Longrightarrow>
      \<exists>data ps. ev = Completed data
        \<and> observe loads data = Inr (Observed (JStr ''Succeeded'') ps)"
    and "v = Some False \<Longrightarrow>
      \<exists>data status ps. ev = Completed data \<and> observe loads data = Inr (Observed status ps)
        \<and> (failed_names ps \<noteq> [] \<or> status = JStr ''Failed'' \<or> status = JStr ''Error'')"
  using assms
  by (auto simp: production_pass_def Let_def terminal_def
      split: call.splits sum.splits observation.splits if_splits)


subsection \<open>The loops as instances of their common shape\<close>





subsection \<open>How a polling loop runs and ends\<close>































subsection \<open>Time limits\<close>









subsection \<open>Exceptions in a pass\<close>








subsection \<open>Keyboard interrupts\<close>



lemma monitor_pipeline_interrupted_retry:
  "monitor_pipeline loads interrupted_retry (Suc n)
     = Some \<lparr>outcome = Uncaught KeyboardInterrupt, slept = [600], clock = 5\<rparr>"
  by (simp add: monitor_pipeline_def interrupted_retry_def monitor_pass_raises
      max_duration_def check_interval_def)



section \<open>Properties of fix_granite_image.py\<close>

lemma commands_append [simp]: "commands (xs @ ys) = commands xs @ commands ys"
  by (simp add: commands_def)

lemma commands_simps [simp]:
  "commands [] = []" "commands (Ran c # es) = c # commands es"
  "commands (Wrote f # es) = commands es" "commands (Slept n # es) = commands es"
  by (simp_all add: commands_def)















end
